theory Spec2Isabelle
  imports Complex_Main
begin

section \<open>JavaScript values used by the adapters\<close>

text \<open>
  Strings are \<open>string\<close> (one \<open>char\<close> per UTF-16 code unit of the JavaScript string; the
  adapters only measure, slice and concatenate them). An optional property \<open>p?: string\<close> is a
  \<open>string option\<close>, \<open>None\<close> standing for \<open>undefined\<close>.
\<close>

definition newline :: string where
  "newline = [CHR 0x0A]"

definition fence :: string where
  "fence = [CHR 0x60, CHR 0x60, CHR 0x60]"

text \<open>\<open>Array.prototype.join\<close>.\<close>

fun js_join :: "string \<Rightarrow> string list \<Rightarrow> string" where
  "js_join sep [] = []"
| "js_join sep [x] = x"
| "js_join sep (x # y # ys) = x @ sep @ js_join sep (y # ys)"

text \<open>Truthiness of an optional string: \<open>undefined\<close> and the empty string are falsy.\<close>

definition truthy :: "string option \<Rightarrow> bool" where
  "truthy v = (case v of None \<Rightarrow> False | Some s \<Rightarrow> s \<noteq> [])"

text \<open>\<open>v || d\<close> on an optional string.\<close>

definition or_else :: "string option \<Rightarrow> string \<Rightarrow> string" where
  "or_else v d = (case v of None \<Rightarrow> d | Some s \<Rightarrow> if s = [] then d else s)"

text \<open>\<open>n || d\<close> on an optional number: \<open>undefined\<close> and \<open>0\<close> are falsy.\<close>

definition num_or :: "nat option \<Rightarrow> nat \<Rightarrow> nat" where
  "num_or v d = (case v of None \<Rightarrow> d | Some n \<Rightarrow> if n = 0 then d else n)"

text \<open>\<open>String.prototype.startsWith\<close>, \<open>includes\<close>, \<open>toLowerCase\<close> (on ASCII letters) and
  \<open>substring\<close> (for \<open>0 \<le> a \<le> b\<close>; the end is clamped to the length).\<close>

definition startsWith :: "string \<Rightarrow> string \<Rightarrow> bool" where
  "startsWith s p = (take (length p) s = p)"

fun includes_str :: "string \<Rightarrow> string \<Rightarrow> bool" where
  "includes_str [] p = (p = [])"
| "includes_str (c # cs) p = (startsWith (c # cs) p \<or> includes_str cs p)"

definition lower_char :: "char \<Rightarrow> char" where
  "lower_char c =
     (if (65::nat) \<le> of_char c \<and> (of_char c :: nat) \<le> 90
      then char_of ((of_char c :: nat) + 32) else c)"

definition toLowerCase :: "string \<Rightarrow> string" where
  "toLowerCase s = map lower_char s"

definition substring :: "string \<Rightarrow> nat \<Rightarrow> nat \<Rightarrow> string" where
  "substring s a b = take (b - a) (drop a s)"

section \<open>Shared types and constants (package miktos-shared)\<close>

text \<open>
  Modelled from the spec: the enums \<open>MessageRole\<close> and \<open>ContentBlockType\<close> are declared in
  \<open>miktos-shared/types\<close>, which is not among the sources; the spec lists their members.
  \<open>OTHER s\<close> is a type tag outside the enum (the adapters take the blocks as \<open>any[]\<close> and
  have a branch for it), \<open>s\<close> being its text.
\<close>

datatype MessageRole = SYSTEM | USER | ASSISTANT | TOOL

datatype ContentBlockType = TEXT | CODE | TOOL_USE | TOOL_RESULT | IMAGE | OTHER string

text \<open>
  The string values of the \<open>ContentBlockType\<close> members and of \<open>MODEL_IDS\<close>
  (\<open>miktos-shared/constants\<close>) are not among the sources either: every function that reads
  them takes them as the parameter \<open>S\<close>.
\<close>

record miktos_shared =
  tag_TEXT :: string
  tag_CODE :: string
  tag_TOOL_USE :: string
  tag_TOOL_RESULT :: string
  tag_IMAGE :: string
  GPT_4 :: string
  GPT_4_TURBO :: string
  GPT_3_5_TURBO :: string
  CLAUDE_3_OPUS :: string
  CLAUDE_3_SONNET :: string
  CLAUDE_3_HAIKU :: string
  GEMINI_PRO :: string
  GEMINI_ULTRA :: string

text \<open>One assignment of these constants, for evaluating the functions on concrete inputs.\<close>

definition example_shared :: miktos_shared where
  "example_shared =
     \<lparr>tag_TEXT = ''text'', tag_CODE = ''code'', tag_TOOL_USE = ''tool_use'',
      tag_TOOL_RESULT = ''tool_result'', tag_IMAGE = ''image'',
      GPT_4 = ''gpt-4'', GPT_4_TURBO = ''gpt-4-turbo'', GPT_3_5_TURBO = ''gpt-3.5-turbo'',
      CLAUDE_3_OPUS = ''claude-3-opus'', CLAUDE_3_SONNET = ''claude-3-sonnet'',
      CLAUDE_3_HAIKU = ''claude-3-haiku'',
      GEMINI_PRO = ''gemini-pro'', GEMINI_ULTRA = ''gemini-ultra''\<rparr>"

text \<open>The text of a block's \<open>type\<close> in a template string.\<close>

fun type_string :: "miktos_shared \<Rightarrow> ContentBlockType \<Rightarrow> string" where
  "type_string S TEXT = tag_TEXT S"
| "type_string S CODE = tag_CODE S"
| "type_string S TOOL_USE = tag_TOOL_USE S"
| "type_string S TOOL_RESULT = tag_TOOL_RESULT S"
| "type_string S IMAGE = tag_IMAGE S"
| "type_string S (OTHER s) = s"

text \<open>
  A content block as the adapters read it: the tag and the optional properties they test.
  \<open>b_result\<close> holds the block's result as its JSON text, that is, what
  \<open>JSON.stringify(block.result)\<close> puts into the template string.
\<close>

record ContentBlock =
  b_type :: "ContentBlockType option"
  b_text :: "string option"
  b_code :: "string option"
  b_language :: "string option"
  b_toolName :: "string option"
  b_result :: string
  b_caption :: "string option"

text \<open>The \<open>content\<close> of a message: an array of blocks, or (the legacy branch) a string, or
  anything else.\<close>

datatype content_value = BlockArray "ContentBlock list" | StringValue string | OtherValue

record Message =
  m_role :: MessageRole
  m_content :: content_value
  m_toolCallId :: "string option"

section \<open>Message normalizer: \<open>getTextFromContentBlocks\<close>\<close>

text \<open>
  The three adapters carry the same private method, character for character
  (openaiProvider.ts, anthropicProvider.ts, googleaiProvider.ts); \<open>renderBlock\<close> is the
  arrow function it maps over the blocks.
\<close>

definition renderBlock :: "miktos_shared \<Rightarrow> ContentBlock \<Rightarrow> string" where
  "renderBlock S block =
     (if b_type block = Some TEXT \<and> truthy (b_text block) then the (b_text block)
      else if b_type block = Some CODE \<and> truthy (b_code block) then
        fence @ or_else (b_language block) [] @ newline @ the (b_code block) @ newline @ fence
      else if b_type block = Some TOOL_USE \<and> truthy (b_toolName block) then
        ''[Tool use: '' @ the (b_toolName block) @ '']''
      else if b_type block = Some TOOL_RESULT then
        ''[Tool result: '' @ b_result block @ '']''
      else if b_type block = Some IMAGE \<and> truthy (b_caption block) then
        ''[Image: '' @ the (b_caption block) @ '']''
      else
        ''['' @ or_else (map_option (type_string S) (b_type block)) ''unknown'' @ '' content]'')"

definition getTextFromContentBlocks :: "miktos_shared \<Rightarrow> content_value \<Rightarrow> string" where
  "getTextFromContentBlocks S blocks =
     (case blocks of
        BlockArray bs \<Rightarrow> js_join newline (map (renderBlock S) bs)
      | StringValue s \<Rightarrow> s
      | OtherValue \<Rightarrow> [])"

section \<open>Cost estimator: \<open>calculateCost\<close>\<close>

text \<open>
  Prices are USD per 1000 tokens. The \<open>costs\<close> table is an object literal with computed keys:
  a map built by successive updates, so that a later entry wins should two keys be the same
  string. Token counts are natural numbers; prices are taken as exact reals.
\<close>

record price =
  p_input :: real
  p_output :: real

definition openai_costs :: "miktos_shared \<Rightarrow> string \<rightharpoonup> price" where
  "openai_costs S =
     [GPT_4 S \<mapsto> \<lparr>p_input = 0.03, p_output = 0.06\<rparr>,
      GPT_4_TURBO S \<mapsto> \<lparr>p_input = 0.01, p_output = 0.03\<rparr>,
      GPT_3_5_TURBO S \<mapsto> \<lparr>p_input = 0.0015, p_output = 0.002\<rparr>]"

definition anthropic_costs :: "miktos_shared \<Rightarrow> string \<rightharpoonup> price" where
  "anthropic_costs S =
     [CLAUDE_3_OPUS S \<mapsto> \<lparr>p_input = 0.015, p_output = 0.075\<rparr>,
      CLAUDE_3_SONNET S \<mapsto> \<lparr>p_input = 0.003, p_output = 0.015\<rparr>,
      CLAUDE_3_HAIKU S \<mapsto> \<lparr>p_input = 0.00025, p_output = 0.00125\<rparr>]"

definition google_costs :: "miktos_shared \<Rightarrow> string \<rightharpoonup> price" where
  "google_costs S =
     [GEMINI_PRO S \<mapsto> \<lparr>p_input = 0.00125, p_output = 0.00375\<rparr>,
      GEMINI_ULTRA S \<mapsto> \<lparr>p_input = 0.00375, p_output = 0.01125\<rparr>]"

text \<open>
  \<open>costs[modelId]\<close> is a property read on an object literal: it finds the table's own entry
  for the key or, when there is none, the member that every object inherits from
  \<open>Object.prototype\<close> under that name (a function, or for \<open>__proto__\<close> the prototype itself),
  and is \<open>undefined\<close> otherwise. An inherited member is truthy and has no \<open>input\<close> or \<open>output\<close>
  property.
\<close>

definition object_prototype_members :: "string list" where
  "object_prototype_members =
     [''constructor'', ''hasOwnProperty'', ''isPrototypeOf'', ''propertyIsEnumerable'',
      ''toLocaleString'', ''toString'', ''valueOf'', ''__proto__'',
      ''__defineGetter__'', ''__defineSetter__'', ''__lookupGetter__'', ''__lookupSetter__'']"

datatype cost_entry = Own price | Inherited

definition js_lookup :: "(string \<rightharpoonup> price) \<Rightarrow> string \<Rightarrow> cost_entry option" where
  "js_lookup costs key =
     (case costs key of
        Some c \<Rightarrow> Some (Own c)
      | None \<Rightarrow> if key \<in> set object_prototype_members then Some Inherited else None)"

text \<open>A JavaScript number as the estimator produces it: a real, or \<open>NaN\<close>. Multiplying by an
  undefined property gives \<open>NaN\<close>, and \<open>NaN\<close> propagates through \<open>*\<close> and \<open>+\<close>.\<close>

datatype js_number = Num real | NaN

fun js_times :: "js_number \<Rightarrow> js_number \<Rightarrow> js_number" where
  "js_times (Num a) (Num b) = Num (a * b)"
| "js_times a b = NaN"

fun js_plus :: "js_number \<Rightarrow> js_number \<Rightarrow> js_number" where
  "js_plus (Num a) (Num b) = Num (a + b)"
| "js_plus a b = NaN"

fun entry_input :: "cost_entry \<Rightarrow> js_number" where
  "entry_input (Own c) = Num (p_input c)"
| "entry_input Inherited = NaN"

fun entry_output :: "cost_entry \<Rightarrow> js_number" where
  "entry_output (Own c) = Num (p_output c)"
| "entry_output Inherited = NaN"

text \<open>
  \<open>costs[modelId] || costs[DEFAULT]\<close>, then the two products and their sum. The default key
  is one of the table's own keys in each adapter (lemmas \<open>*_default_tier\<close> below), so \<open>the\<close>
  is only applied to a defined entry.
\<close>

definition cost_of :: "(string \<rightharpoonup> price) \<Rightarrow> string \<Rightarrow> string \<Rightarrow> nat \<Rightarrow> nat \<Rightarrow> js_number" where
  "cost_of costs fallback modelId promptTokens completionTokens =
     (let modelCost = (case js_lookup costs modelId of
                         Some entry \<Rightarrow> entry
                       | None \<Rightarrow> the (js_lookup costs fallback));
          inputCost = js_times (Num (real promptTokens / 1000)) (entry_input modelCost);
          outputCost = js_times (Num (real completionTokens / 1000)) (entry_output modelCost)
      in js_plus inputCost outputCost)"

definition openai_calculateCost :: "miktos_shared \<Rightarrow> string \<Rightarrow> nat \<Rightarrow> nat \<Rightarrow> js_number" where
  "openai_calculateCost S = cost_of (openai_costs S) (GPT_3_5_TURBO S)"

definition anthropic_calculateCost :: "miktos_shared \<Rightarrow> string \<Rightarrow> nat \<Rightarrow> nat \<Rightarrow> js_number" where
  "anthropic_calculateCost S = cost_of (anthropic_costs S) (CLAUDE_3_HAIKU S)"

definition google_calculateCost :: "miktos_shared \<Rightarrow> string \<Rightarrow> nat \<Rightarrow> nat \<Rightarrow> js_number" where
  "google_calculateCost S = cost_of (google_costs S) (GEMINI_PRO S)"

section \<open>Provider registry: \<open>ModelService\<close>\<close>

text \<open>
  Modelled from the spec: the keys \<open>PROVIDERS.OPENAI\<close>, \<open>PROVIDERS.ANTHROPIC\<close> and
  \<open>PROVIDERS.GOOGLE\<close> (\<open>miktos-shared/constants\<close>, not among the sources) are the three
  members of the spec's provider enum. An adapter is known by its class and the credential
  it was constructed with.
\<close>

datatype PROVIDERS = OPENAI | ANTHROPIC | GOOGLE

datatype ModelProvider = OpenAIProvider string | AnthropicProvider string | GoogleAIProvider string

record AppConfig =
  openaiApiKey :: "string option"
  anthropicApiKey :: "string option"
  geminiApiKey :: "string option"

text \<open>\<open>initializeProviders\<close>: the three constructors are taken to return normally.\<close>

definition initializeProviders :: "AppConfig \<Rightarrow> PROVIDERS \<rightharpoonup> ModelProvider" where
  "initializeProviders config =
     (let providers = Map.empty;
          providers = (if truthy (openaiApiKey config)
                       then providers(OPENAI \<mapsto> OpenAIProvider (the (openaiApiKey config)))
                       else providers);
          providers = (if truthy (anthropicApiKey config)
                       then providers(ANTHROPIC \<mapsto> AnthropicProvider (the (anthropicApiKey config)))
                       else providers);
          providers = (if truthy (geminiApiKey config)
                       then providers(GOOGLE \<mapsto> GoogleAIProvider (the (geminiApiKey config)))
                       else providers)
      in providers)"

text \<open>\<open>getProviderForModel\<close>: \<open>None\<close> is the \<open>null\<close> it returns.\<close>

definition getProviderForModel :: "(PROVIDERS \<rightharpoonup> ModelProvider) \<Rightarrow> string \<Rightarrow> ModelProvider option" where
  "getProviderForModel providers modelId =
     (if startsWith modelId ''gpt'' then providers OPENAI
      else if startsWith modelId ''claude'' then providers ANTHROPIC
      else if startsWith modelId ''gemini'' then providers GOOGLE
      else None)"

definition getAvailableProviders :: "(PROVIDERS \<rightharpoonup> ModelProvider) \<Rightarrow> PROVIDERS set" where
  "getAvailableProviders providers = dom providers"

section \<open>Message normalizer: \<open>formatMessages\<close>\<close>

record openai_message =
  om_role :: string
  om_content :: string
  om_tool_call_id :: "string option"

text \<open>The body of the \<open>for\<close> loop of \<open>OpenAIProvider.formatMessages\<close>: one \<open>push\<close>.\<close>

definition openai_push :: "miktos_shared \<Rightarrow> openai_message list \<Rightarrow> Message \<Rightarrow> openai_message list" where
  "openai_push S formattedMessages message =
     (let contentText = getTextFromContentBlocks S (m_content message) in
      if m_role message = SYSTEM then
        formattedMessages @ [\<lparr>om_role = ''system'', om_content = contentText, om_tool_call_id = None\<rparr>]
      else if m_role message = USER then
        formattedMessages @ [\<lparr>om_role = ''user'', om_content = contentText, om_tool_call_id = None\<rparr>]
      else if m_role message = ASSISTANT then
        formattedMessages @ [\<lparr>om_role = ''assistant'', om_content = contentText, om_tool_call_id = None\<rparr>]
      else if m_role message = TOOL then
        formattedMessages @ [\<lparr>om_role = ''tool'', om_content = contentText,
          om_tool_call_id = Some (or_else (m_toolCallId message) ''placeholder-tool-call-id'')\<rparr>]
      else formattedMessages)"

definition openai_formatMessages :: "miktos_shared \<Rightarrow> Message list \<Rightarrow> string option \<Rightarrow> openai_message list" where
  "openai_formatMessages S messages systemPrompt =
     foldl (openai_push S)
       (if truthy systemPrompt
        then [\<lparr>om_role = ''system'', om_content = the systemPrompt, om_tool_call_id = None\<rparr>]
        else [])
       messages"

record anthropic_message =
  am_role :: string
  am_content :: string

text \<open>\<open>AnthropicProvider.formatMessages\<close>: \<open>map\<close> to a message or \<open>null\<close> (\<open>None\<close>), then
  \<open>filter(Boolean)\<close>. The parameter \<open>systemPrompt\<close> is not read.\<close>

definition anthropic_convert :: "miktos_shared \<Rightarrow> Message \<Rightarrow> anthropic_message option" where
  "anthropic_convert S message =
     (let contentText = getTextFromContentBlocks S (m_content message) in
      if m_role message = USER \<or> m_role message = ASSISTANT then
        Some \<lparr>am_role = (if m_role message = USER then ''user'' else ''assistant''),
              am_content = contentText\<rparr>
      else None)"

definition anthropic_formatMessages :: "miktos_shared \<Rightarrow> Message list \<Rightarrow> string option \<Rightarrow> anthropic_message list" where
  "anthropic_formatMessages S messages systemPrompt =
     map the (filter (\<lambda>x. x \<noteq> None) (map (anthropic_convert S) messages))"

record google_message =
  gm_content :: string
  gm_author :: "string option"

fun mapRoleToAuthor :: "MessageRole \<Rightarrow> string" where
  "mapRoleToAuthor USER = ''user''"
| "mapRoleToAuthor ASSISTANT = ''model''"
| "mapRoleToAuthor SYSTEM = ''system''"
| "mapRoleToAuthor TOOL = ''user''"

text \<open>\<open>GoogleAIProvider.formatMessages\<close>. The parameter \<open>systemPrompt\<close> is not read.\<close>

definition google_formatMessages :: "miktos_shared \<Rightarrow> Message list \<Rightarrow> string option \<Rightarrow> google_message list" where
  "google_formatMessages S messages systemPrompt =
     map (\<lambda>message.
            (let contentText = getTextFromContentBlocks S (m_content message) in
             \<lparr>gm_content = contentText, gm_author = Some (mapRoleToAuthor (m_role message))\<rparr>))
         messages"

text \<open>
  The native message that corresponds to one input message in the OpenAI format, written as
  the spec words it (SYSTEM to a system message, TOOL to a tool message), to compare the
  loop of \<open>formatMessages\<close> with.
\<close>

fun openai_role :: "MessageRole \<Rightarrow> string" where
  "openai_role SYSTEM = ''system''"
| "openai_role USER = ''user''"
| "openai_role ASSISTANT = ''assistant''"
| "openai_role TOOL = ''tool''"

definition openai_native :: "miktos_shared \<Rightarrow> Message \<Rightarrow> openai_message" where
  "openai_native S m =
     \<lparr>om_role = openai_role (m_role m),
      om_content = getTextFromContentBlocks S (m_content m),
      om_tool_call_id =
        (if m_role m = TOOL then Some (or_else (m_toolCallId m) ''placeholder-tool-call-id'')
         else None)\<rparr>"

text \<open>A message of one TEXT block, for examples.\<close>

definition text_message :: "MessageRole \<Rightarrow> string \<Rightarrow> Message" where
  "text_message r t =
     \<lparr>m_role = r,
      m_content = BlockArray [\<lparr>b_type = Some TEXT, b_text = Some t, b_code = None,
                               b_language = None, b_toolName = None, b_result = ''null'',
                               b_caption = None\<rparr>],
      m_toolCallId = None\<rparr>"

section \<open>Requests and responses\<close>

datatype prompt_value = StringPrompt string | MessagePrompt "Message list"

record AIModelRequest =
  modelId :: string
  temperature :: "real option"
  maxTokens :: "nat option"
  stopSequences :: "string list option"
  systemPrompt :: "string option"
  prompt :: prompt_value
  requestId :: "string option"

record Usage =
  promptTokens :: nat
  completionTokens :: nat
  totalTokens :: nat
  estimatedCost :: js_number

record ResponseMetadata =
  finishReason :: "string option"
  stopReason :: "string option"

record AIModelResponse =
  r_modelId :: string
  r_provider :: string
  r_content :: string
  r_usage :: Usage
  r_metadata :: ResponseMetadata

text \<open>The destructuring default \<open>temperature = 0.7\<close>.\<close>

definition temperature_or_default :: "AIModelRequest \<Rightarrow> real" where
  "temperature_or_default params = (case temperature params of None \<Rightarrow> 0.7 | Some t \<Rightarrow> t)"

text \<open>
  A backend call either returns a reply or throws; a thrown value is known by its message
  (\<open>error instanceof Error ? error.message : String(error)\<close>), so a call yields
  \<open>string + reply\<close>, \<open>Inl\<close> the message. A client is a function of the number of calls made on
  it before and of the request. \<open>generate\<close> returns, with its result, the number of backend
  calls it made and the delays (ms) it waited with \<open>setTimeout\<close>, in order.
\<close>

type_synonym 'a outcome = "(string + 'a) \<times> nat \<times> nat list"

section \<open>OpenAI adapter: \<open>generate\<close>\<close>

record openai_request =
  o_model :: string
  o_messages :: "openai_message list"
  o_temperature :: real
  o_max_tokens :: "nat option"
  o_stop :: "string list option"
  o_stream :: bool

record openai_usage =
  prompt_tokens :: nat
  completion_tokens :: nat
  total_tokens :: nat

text \<open>\<open>choice_content\<close> is \<open>response.choices[0]?.message?.content\<close>, \<open>choice_finish_reason\<close> is
  \<open>response.choices[0]?.finish_reason\<close>.\<close>

record openai_reply =
  choice_content :: "string option"
  choice_finish_reason :: "string option"
  reply_usage :: "openai_usage option"

definition openai_countTokens :: "string \<Rightarrow> nat" where
  "openai_countTokens text = nat \<lceil>real (length text) / 4\<rceil>"

text \<open>The messages of a request, and the request: the same in \<open>generate\<close> and
  \<open>generateStream\<close>, up to the \<open>stream\<close> flag.\<close>

definition openai_messages :: "miktos_shared \<Rightarrow> AIModelRequest \<Rightarrow> openai_message list" where
  "openai_messages S params =
     (case prompt params of
        StringPrompt p \<Rightarrow>
          (if truthy (systemPrompt params)
           then [\<lparr>om_role = ''system'', om_content = the (systemPrompt params), om_tool_call_id = None\<rparr>]
           else [])
          @ [\<lparr>om_role = ''user'', om_content = p, om_tool_call_id = None\<rparr>]
      | MessagePrompt msgs \<Rightarrow> openai_formatMessages S msgs (systemPrompt params))"

definition openai_response :: "miktos_shared \<Rightarrow> AIModelRequest \<Rightarrow> openai_reply \<Rightarrow> AIModelResponse" where
  "openai_response S params response =
     (let content = or_else (choice_content response) [] in
      \<lparr>r_modelId = modelId params,
       r_provider = ''openai'',
       r_content = content,
       r_usage =
         \<lparr>promptTokens = num_or (map_option prompt_tokens (reply_usage response)) 0,
          completionTokens = num_or (map_option completion_tokens (reply_usage response)) 0,
          totalTokens = num_or (map_option total_tokens (reply_usage response)) 0,
          estimatedCost = openai_calculateCost S (modelId params)
            (num_or (map_option prompt_tokens (reply_usage response)) 0)
            (num_or (map_option completion_tokens (reply_usage response)) 0)\<rparr>,
       r_metadata = \<lparr>finishReason = choice_finish_reason response, stopReason = None\<rparr>\<rparr>)"

text \<open>\<open>OpenAIProvider.generate\<close>: one call of \<open>chat.completions.create\<close> inside \<open>try\<close>; the
  \<open>catch\<close> rethrows with the provider's prefix. Both branches on \<open>prompt\<close> build the response
  the same way.\<close>

definition openai_request_of :: "miktos_shared \<Rightarrow> AIModelRequest \<Rightarrow> bool \<Rightarrow> openai_request" where
  "openai_request_of S params stream =
     \<lparr>o_model = modelId params, o_messages = openai_messages S params,
      o_temperature = temperature_or_default params, o_max_tokens = maxTokens params,
      o_stop = stopSequences params, o_stream = stream\<rparr>"

definition openai_generate ::
  "miktos_shared \<Rightarrow> (nat \<Rightarrow> openai_request \<Rightarrow> string + openai_reply) \<Rightarrow> AIModelRequest
     \<Rightarrow> AIModelResponse outcome" where
  "openai_generate S client params =
     (case client 0 (openai_request_of S params False) of
        Inr response \<Rightarrow> (Inr (openai_response S params response), 1, [])
      | Inl message \<Rightarrow> (Inl (''OpenAI API Error: '' @ message), 1, []))"

section \<open>Anthropic adapter: \<open>generate\<close>\<close>

record anthropic_request =
  a_model :: string
  a_messages :: "anthropic_message list"
  a_temperature :: real
  a_max_tokens :: nat
  a_stop_sequences :: "string list option"
  a_system :: "string option"
  a_stream :: bool

text \<open>A block of the reply: \<open>ab_text = None\<close> when the block has no \<open>text\<close> key.\<close>

record anthropic_block =
  ab_type :: string
  ab_text :: "string option"

record anthropic_usage =
  input_tokens :: "nat option"
  output_tokens :: "nat option"

record anthropic_reply =
  reply_content :: "anthropic_block list"
  reply_usage_a :: "anthropic_usage option"
  stop_reason :: "string option"

definition anthropic_countTokens :: "string \<Rightarrow> nat" where
  "anthropic_countTokens text = nat \<lceil>real (length text) / 4.5\<rceil>"

definition extractTextFromContent :: "anthropic_block list \<Rightarrow> string" where
  "extractTextFromContent content =
     js_join newline
       (filter (\<lambda>t. t \<noteq> [])
          (map (\<lambda>block. case ab_text block of Some t \<Rightarrow> t | None \<Rightarrow> []) content))"

definition anthropic_generate_messages :: "miktos_shared \<Rightarrow> AIModelRequest \<Rightarrow> anthropic_message list" where
  "anthropic_generate_messages S params =
     (case prompt params of
        StringPrompt p \<Rightarrow> [\<lparr>am_role = ''user'', am_content = p\<rparr>]
      | MessagePrompt msgs \<Rightarrow> anthropic_formatMessages S msgs (systemPrompt params))"

definition anthropic_response :: "miktos_shared \<Rightarrow> AIModelRequest \<Rightarrow> anthropic_reply \<Rightarrow> AIModelResponse" where
  "anthropic_response S params response =
     (let content = extractTextFromContent (reply_content response);
          input = num_or (Option.bind (reply_usage_a response) input_tokens) 0;
          output = num_or (Option.bind (reply_usage_a response) output_tokens) 0 in
      \<lparr>r_modelId = modelId params,
       r_provider = ''anthropic'',
       r_content = content,
       r_usage =
         \<lparr>promptTokens = input,
          completionTokens = output,
          totalTokens = input + output,
          estimatedCost = anthropic_calculateCost S (modelId params) input output\<rparr>,
       r_metadata = \<lparr>finishReason = None, stopReason = stop_reason response\<rparr>\<rparr>)"

text \<open>\<open>AnthropicProvider.generate\<close>: one call of \<open>messages.create\<close>, with
  \<open>system: systemPrompt\<close> in both branches.\<close>

definition anthropic_request_of ::
  "miktos_shared \<Rightarrow> AIModelRequest \<Rightarrow> string option \<Rightarrow> bool \<Rightarrow> anthropic_request" where
  "anthropic_request_of S params system stream =
     \<lparr>a_model = modelId params, a_messages = anthropic_generate_messages S params,
      a_temperature = temperature_or_default params,
      a_max_tokens = num_or (maxTokens params) 1024,
      a_stop_sequences = stopSequences params, a_system = system,
      a_stream = stream\<rparr>"

definition anthropic_generate_request :: "miktos_shared \<Rightarrow> AIModelRequest \<Rightarrow> anthropic_request" where
  "anthropic_generate_request S params = anthropic_request_of S params (systemPrompt params) False"

definition anthropic_generate ::
  "miktos_shared \<Rightarrow> (nat \<Rightarrow> anthropic_request \<Rightarrow> string + anthropic_reply) \<Rightarrow> AIModelRequest
     \<Rightarrow> AIModelResponse outcome" where
  "anthropic_generate S client params =
     (case client 0 (anthropic_generate_request S params) of
        Inr response \<Rightarrow> (Inr (anthropic_response S params response), 1, [])
      | Inl message \<Rightarrow> (Inl (''Anthropic API Error: '' @ message), 1, []))"

section \<open>Google adapter: \<open>generate\<close>\<close>

record google_request =
  g_model :: string
  g_messages :: "google_message list"
  g_temperature :: real
  g_candidateCount :: nat
  g_topK :: nat
  g_topP :: real

text \<open>\<open>candidate_content\<close> is \<open>response[0]?.candidates?.[0]?.content\<close>, \<open>candidate_finishReason\<close>
  the \<open>finishReason\<close> of the same candidate.\<close>

record google_reply =
  candidate_content :: "string option"
  candidate_finishReason :: "string option"

text \<open>\<open>finishReason || null\<close>: \<open>None\<close> is the \<open>null\<close>.\<close>

definition finish_or_null :: "google_reply \<Rightarrow> string option" where
  "finish_or_null response =
     (if truthy (candidate_finishReason response) then candidate_finishReason response else None)"

definition google_countTokens :: "string \<Rightarrow> nat" where
  "google_countTokens text = nat \<lceil>real (length text) / 4\<rceil>"

definition formatModelName :: "string \<Rightarrow> string" where
  "formatModelName model_id =
     (if \<not> includes_str model_id ''/'' then ''models/'' @ model_id else model_id)"

definition isRateLimitError :: "string \<Rightarrow> bool" where
  "isRateLimitError errorMessage =
     (includes_str (toLowerCase errorMessage) ''quota'' \<or>
      includes_str (toLowerCase errorMessage) ''rate'' \<or>
      includes_str (toLowerCase errorMessage) ''limit'')"

text \<open>The body of the \<open>try\<close> block of \<open>GoogleAIProvider.generate\<close>: it calls
  \<open>generateMessage\<close> once. The token loop over the messages is a left fold.\<close>

definition google_try ::
  "miktos_shared \<Rightarrow> (google_request \<Rightarrow> string + google_reply) \<Rightarrow> AIModelRequest
     \<Rightarrow> string + AIModelResponse" where
  "google_try S generateMessage params =
     (case prompt params of
        StringPrompt p \<Rightarrow>
          (case generateMessage
                  \<lparr>g_model = formatModelName (modelId params),
                   g_messages = [\<lparr>gm_content = p, gm_author = None\<rparr>],
                   g_temperature = temperature_or_default params,
                   g_candidateCount = 1, g_topK = 40, g_topP = 0.95\<rparr> of
             Inl message \<Rightarrow> Inl message
           | Inr response \<Rightarrow>
               (let content = or_else (candidate_content response) [];
                    inputTokens = google_countTokens p;
                    outputTokens = google_countTokens content in
                Inr \<lparr>r_modelId = modelId params,
                     r_provider = ''google'',
                     r_content = content,
                     r_usage =
                       \<lparr>promptTokens = inputTokens,
                        completionTokens = outputTokens,
                        totalTokens = inputTokens + outputTokens,
                        estimatedCost = google_calculateCost S (modelId params) inputTokens outputTokens\<rparr>,
                     r_metadata = \<lparr>finishReason = finish_or_null response, stopReason = None\<rparr>\<rparr>))
      | MessagePrompt msgs \<Rightarrow>
          (case generateMessage
                  \<lparr>g_model = formatModelName (modelId params),
                   g_messages = google_formatMessages S msgs None,
                   g_temperature = temperature_or_default params,
                   g_candidateCount = 1, g_topK = 40, g_topP = 0.95\<rparr> of
             Inl message \<Rightarrow> Inl message
           | Inr response \<Rightarrow>
               (let content = or_else (candidate_content response) [];
                    totalInputTokens =
                      foldl (\<lambda>total message.
                               total + google_countTokens (getTextFromContentBlocks S (m_content message)))
                            0 msgs;
                    outputTokens = google_countTokens content in
                Inr \<lparr>r_modelId = modelId params,
                     r_provider = ''google'',
                     r_content = content,
                     r_usage =
                       \<lparr>promptTokens = totalInputTokens,
                        completionTokens = outputTokens,
                        totalTokens = totalInputTokens + outputTokens,
                        estimatedCost = google_calculateCost S (modelId params) totalInputTokens outputTokens\<rparr>,
                     r_metadata = \<lparr>finishReason = finish_or_null response, stopReason = None\<rparr>\<rparr>)))"

definition maxRetries :: nat where
  "maxRetries = 3"

text \<open>
  The \<open>while (retries <= maxRetries)\<close> loop of \<open>GoogleAIProvider.generate\<close>, with the
  counter of backend calls and the list of delays waited so far. The last line is the
  \<open>throw\<close> after the loop.
\<close>

function google_generate_loop ::
  "miktos_shared \<Rightarrow> (nat \<Rightarrow> google_request \<Rightarrow> string + google_reply) \<Rightarrow> AIModelRequest
     \<Rightarrow> nat \<Rightarrow> nat \<Rightarrow> nat \<Rightarrow> nat list \<Rightarrow> AIModelResponse outcome" where
  "google_generate_loop S client params retries delay calls waits =
     (if retries \<le> maxRetries then
        (case google_try S (client calls) params of
           Inr response \<Rightarrow> (Inr response, calls + 1, waits)
         | Inl errorMessage \<Rightarrow>
             (if isRateLimitError errorMessage \<and> retries < maxRetries
              then google_generate_loop S client params (retries + 1) (delay * 2) (calls + 1)
                     (waits @ [delay])
              else (Inl (''Google AI API Error: '' @ errorMessage), calls + 1, waits)))
      else (Inl ''Google AI API Error: Maximum retry limit reached'', calls, waits))"
  by pat_completeness auto
termination
  by (relation "measure (\<lambda>(S, client, params, retries, delay, calls, waits). Suc maxRetries - retries)")
     auto

declare google_generate_loop.simps [simp del]

definition google_generate ::
  "miktos_shared \<Rightarrow> (nat \<Rightarrow> google_request \<Rightarrow> string + google_reply) \<Rightarrow> AIModelRequest
     \<Rightarrow> AIModelResponse outcome" where
  "google_generate S client params = google_generate_loop S client params 0 1000 0 []"

section \<open>Streaming\<close>

text \<open>
  A \<open>StreamChunk\<close> without its \<open>chunkId\<close> and \<open>timestamp\<close>, which read the wall clock.
  \<open>generateStream\<close> returns the chunks it passed to \<open>onChunk\<close>, in order, and its result
  (\<open>Inl\<close> the message of the error it throws). \<open>onChunk\<close> is taken to return normally.
\<close>

datatype ChunkType = CONTENT_DELTA | ERROR

datatype ChunkPayload = TextPayload string | ErrorPayload string

record ChunkMetadata =
  cm_provider :: "string option"
  cm_usage :: "Usage option"
  cm_finishReason :: "string option"
  cm_stopReason :: "string option"

record StreamChunk =
  c_streamId :: string
  c_type :: ChunkType
  c_payload :: ChunkPayload
  c_isFinal :: bool
  c_modelId :: string
  c_metadata :: "ChunkMetadata option"

text \<open>The chunk sent by the \<open>catch\<close> block of each adapter's \<open>generateStream\<close>.\<close>

definition error_chunk :: "string \<Rightarrow> string \<Rightarrow> string \<Rightarrow> string \<Rightarrow> StreamChunk" where
  "error_chunk provider streamId model message =
     \<lparr>c_streamId = streamId, c_type = ERROR, c_payload = ErrorPayload message, c_isFinal = True,
      c_modelId = model,
      c_metadata = Some \<lparr>cm_provider = Some provider, cm_usage = None, cm_finishReason = None,
                          cm_stopReason = None\<rparr>\<rparr>"

text \<open>What a consumer reads off a stream: the \<open>payload.text\<close> of its CONTENT_DELTA chunks, in
  emission order.\<close>

definition content_delta_texts :: "StreamChunk list \<Rightarrow> string list" where
  "content_delta_texts chunks =
     concat (map (\<lambda>c. case c_payload c of
                          TextPayload t \<Rightarrow> if c_type c = CONTENT_DELTA then [t] else []
                        | ErrorPayload e \<Rightarrow> [])
                 chunks)"

text \<open>An async iterator: the items it yields, then the message of the error it throws, if
  it throws.\<close>

type_synonym 'c js_stream = "'c list \<times> string option"

subsection \<open>The base class's fallback\<close>

definition base_generateStream ::
  "(AIModelRequest \<Rightarrow> string + AIModelResponse) \<Rightarrow> AIModelRequest \<Rightarrow> string
     \<Rightarrow> StreamChunk list \<times> (string + AIModelResponse)" where
  "base_generateStream generate params streamId =
     (case generate params of
        Inl message \<Rightarrow> ([], Inl message)
      | Inr response \<Rightarrow>
          ([\<lparr>c_streamId = streamId, c_type = CONTENT_DELTA,
             c_payload = TextPayload (r_content response), c_isFinal = True,
             c_modelId = r_modelId response,
             c_metadata = Some \<lparr>cm_provider = Some (r_provider response),
                                 cm_usage = Some (r_usage response),
                                 cm_finishReason = None, cm_stopReason = None\<rparr>\<rparr>],
           Inr response))"

subsection \<open>OpenAI\<close>

text \<open>\<open>delta_content\<close> is \<open>chunk.choices[0]?.delta?.content\<close>.\<close>

record openai_stream_chunk =
  delta_content :: "string option"
  chunk_usage :: "openai_usage option"

text \<open>The body of \<open>for await (const chunk of stream)\<close>, on the state
  (accumulatedContent, totalPromptTokens, totalCompletionTokens, chunks sent).\<close>

definition openai_stream_step ::
  "string \<Rightarrow> string \<Rightarrow> string \<times> nat \<times> nat \<times> StreamChunk list \<Rightarrow> openai_stream_chunk
     \<Rightarrow> string \<times> nat \<times> nat \<times> StreamChunk list" where
  "openai_stream_step streamId model st chunk =
     (case st of (accumulatedContent, totalPromptTokens, totalCompletionTokens, sent) \<Rightarrow>
        (let contentDelta = or_else (delta_content chunk) [];
             (accumulatedContent, sent) =
               (if contentDelta \<noteq> [] then
                  (accumulatedContent @ contentDelta,
                   sent @ [\<lparr>c_streamId = streamId, c_type = CONTENT_DELTA,
                            c_payload = TextPayload contentDelta, c_isFinal = False,
                            c_modelId = model,
                            c_metadata = Some \<lparr>cm_provider = Some ''openai'', cm_usage = None,
                                                cm_finishReason = None, cm_stopReason = None\<rparr>\<rparr>])
                else (accumulatedContent, sent))
         in case chunk_usage chunk of
              Some u \<Rightarrow> (accumulatedContent, prompt_tokens u, completion_tokens u, sent)
            | None \<Rightarrow> (accumulatedContent, totalPromptTokens, totalCompletionTokens, sent)))"

definition openai_generateStream ::
  "miktos_shared \<Rightarrow> (openai_request \<Rightarrow> string + openai_stream_chunk js_stream) \<Rightarrow> AIModelRequest
     \<Rightarrow> string \<Rightarrow> StreamChunk list \<times> (string + AIModelResponse)" where
  "openai_generateStream S client params streamId =
     (let messages = openai_messages S params in
      case client (openai_request_of S params True) of
        Inl message \<Rightarrow>
          ([error_chunk ''openai'' streamId (modelId params) message],
           Inl (''OpenAI Streaming Error: '' @ message))
      | Inr (chunks, failure) \<Rightarrow>
          (case foldl (openai_stream_step streamId (modelId params)) ([], 0, 0, []) chunks of
             (accumulatedContent, totalPromptTokens, totalCompletionTokens, sent) \<Rightarrow>
               (case failure of
                  Some message \<Rightarrow>
                    (sent @ [error_chunk ''openai'' streamId (modelId params) message],
                     Inl (''OpenAI Streaming Error: '' @ message))
                | None \<Rightarrow>
                    (let totalPromptTokens =
                           (if totalPromptTokens = 0
                            then foldl (\<lambda>total message. total + openai_countTokens (om_content message))
                                   totalPromptTokens messages
                            else totalPromptTokens);
                         totalCompletionTokens =
                           (if totalCompletionTokens = 0 then openai_countTokens accumulatedContent
                            else totalCompletionTokens);
                         usage =
                           \<lparr>promptTokens = totalPromptTokens,
                            completionTokens = totalCompletionTokens,
                            totalTokens = totalPromptTokens + totalCompletionTokens,
                            estimatedCost = openai_calculateCost S (modelId params)
                              totalPromptTokens totalCompletionTokens\<rparr>
                     in (sent @ [\<lparr>c_streamId = streamId, c_type = CONTENT_DELTA,
                                  c_payload = TextPayload [], c_isFinal = True,
                                  c_modelId = modelId params,
                                  c_metadata = Some \<lparr>cm_provider = Some ''openai'',
                                                      cm_usage = Some usage,
                                                      cm_finishReason = Some ''stop'',
                                                      cm_stopReason = None\<rparr>\<rparr>],
                         Inr \<lparr>r_modelId = modelId params, r_provider = ''openai'',
                              r_content = accumulatedContent, r_usage = usage,
                              r_metadata = \<lparr>finishReason = Some ''stop'', stopReason = None\<rparr>\<rparr>)))))"

subsection \<open>Anthropic\<close>

text \<open>
  A stream event by its \<open>type\<close>. The \<open>delta\<close> of a \<open>content_block_delta\<close> is absent
  (\<open>None\<close>), or has a \<open>text\<close> key (\<open>TextDelta\<close>, the text possibly undefined), or is another
  delta (\<open>OtherDelta\<close>, known by its JSON text). A \<open>message_delta\<close> carries an optional usage.
\<close>

datatype anthropic_delta = TextDelta "string option" | OtherDelta string

datatype anthropic_event =
    ContentBlockDelta "anthropic_delta option"
  | MessageDelta "anthropic_usage option"
  | OtherEvent

definition anthropic_stream_step ::
  "string \<Rightarrow> string \<Rightarrow> string \<times> nat \<times> nat \<times> StreamChunk list \<Rightarrow> anthropic_event
     \<Rightarrow> string \<times> nat \<times> nat \<times> StreamChunk list" where
  "anthropic_stream_step streamId model st chunk =
     (case st of (accumulatedContent, totalPromptTokens, totalCompletionTokens, sent) \<Rightarrow>
        (case chunk of
           ContentBlockDelta delta \<Rightarrow>
             (let textDelta =
                    (case delta of
                       Some (TextDelta t) \<Rightarrow> or_else t []
                     | Some (OtherDelta json) \<Rightarrow> json
                     | None \<Rightarrow> [])
              in if textDelta \<noteq> [] then
                   (accumulatedContent @ textDelta, totalPromptTokens, totalCompletionTokens,
                    sent @ [\<lparr>c_streamId = streamId, c_type = CONTENT_DELTA,
                             c_payload = TextPayload textDelta, c_isFinal = False,
                             c_modelId = model,
                             c_metadata = Some \<lparr>cm_provider = Some ''anthropic'', cm_usage = None,
                                                 cm_finishReason = None, cm_stopReason = None\<rparr>\<rparr>])
                 else (accumulatedContent, totalPromptTokens, totalCompletionTokens, sent))
         | MessageDelta usage \<Rightarrow>
             (case usage of
                Some u \<Rightarrow> (accumulatedContent, num_or (input_tokens u) 0, num_or (output_tokens u) 0, sent)
              | None \<Rightarrow> (accumulatedContent, totalPromptTokens, totalCompletionTokens, sent))
         | OtherEvent \<Rightarrow> (accumulatedContent, totalPromptTokens, totalCompletionTokens, sent)))"

text \<open>The \<open>messages\<close> and \<open>system\<close> that \<open>generateStream\<close> sends.\<close>

definition anthropic_stream_system :: "miktos_shared \<Rightarrow> AIModelRequest \<Rightarrow> string option" where
  "anthropic_stream_system S params =
     (case prompt params of
        StringPrompt p \<Rightarrow> systemPrompt params
      | MessagePrompt msgs \<Rightarrow>
          (case find (\<lambda>m. m_role m = SYSTEM) msgs of
             Some systemMessage \<Rightarrow>
               (if \<not> truthy (systemPrompt params)
                then Some (getTextFromContentBlocks S (m_content systemMessage))
                else systemPrompt params)
           | None \<Rightarrow> systemPrompt params))"

definition anthropic_generateStream ::
  "miktos_shared \<Rightarrow> (anthropic_request \<Rightarrow> string + anthropic_event js_stream) \<Rightarrow> AIModelRequest
     \<Rightarrow> string \<Rightarrow> StreamChunk list \<times> (string + AIModelResponse)" where
  "anthropic_generateStream S client params streamId =
     (let messages = anthropic_generate_messages S params;
          system = anthropic_stream_system S params in
      case client (anthropic_request_of S params system True) of
        Inl message \<Rightarrow>
          ([error_chunk ''anthropic'' streamId (modelId params) message],
           Inl (''Anthropic Streaming Error: '' @ message))
      | Inr (chunks, failure) \<Rightarrow>
          (case foldl (anthropic_stream_step streamId (modelId params)) ([], 0, 0, []) chunks of
             (accumulatedContent, totalPromptTokens, totalCompletionTokens, sent) \<Rightarrow>
               (case failure of
                  Some message \<Rightarrow>
                    (sent @ [error_chunk ''anthropic'' streamId (modelId params) message],
                     Inl (''Anthropic Streaming Error: '' @ message))
                | None \<Rightarrow>
                    (let totalPromptTokens =
                           (if totalPromptTokens = 0
                            then foldl (\<lambda>total message. total + anthropic_countTokens (am_content message))
                                   totalPromptTokens messages
                                 + (if truthy system then anthropic_countTokens (the system) else 0)
                            else totalPromptTokens);
                         totalCompletionTokens =
                           (if totalCompletionTokens = 0 then anthropic_countTokens accumulatedContent
                            else totalCompletionTokens);
                         usage =
                           \<lparr>promptTokens = totalPromptTokens,
                            completionTokens = totalCompletionTokens,
                            totalTokens = totalPromptTokens + totalCompletionTokens,
                            estimatedCost = anthropic_calculateCost S (modelId params)
                              totalPromptTokens totalCompletionTokens\<rparr>
                     in (sent @ [\<lparr>c_streamId = streamId, c_type = CONTENT_DELTA,
                                  c_payload = TextPayload [], c_isFinal = True,
                                  c_modelId = modelId params,
                                  c_metadata = Some \<lparr>cm_provider = Some ''anthropic'',
                                                      cm_usage = Some usage,
                                                      cm_finishReason = None,
                                                      cm_stopReason = Some ''end_turn''\<rparr>\<rparr>],
                         Inr \<lparr>r_modelId = modelId params, r_provider = ''anthropic'',
                              r_content = accumulatedContent, r_usage = usage,
                              r_metadata = \<lparr>finishReason = None, stopReason = Some ''end_turn''\<rparr>\<rparr>)))))"

subsection \<open>Google: simulated streaming\<close>

definition chunkSize :: nat where
  "chunkSize = 10"

text \<open>The \<open>while (sentChars < text.length)\<close> loop, with the chunks sent so far.\<close>

function google_send :: "string \<Rightarrow> AIModelResponse \<Rightarrow> string \<Rightarrow> nat \<Rightarrow> StreamChunk list \<Rightarrow> StreamChunk list" where
  "google_send streamId response text sentChars sent =
     (if sentChars < length text then
        google_send streamId response text (sentChars + chunkSize)
          (sent @ [\<lparr>c_streamId = streamId, c_type = CONTENT_DELTA,
                    c_payload = TextPayload (substring text sentChars (sentChars + chunkSize)),
                    c_isFinal = (sentChars + chunkSize \<ge> length text),
                    c_modelId = r_modelId response,
                    c_metadata =
                      (if sentChars + chunkSize \<ge> length text
                       then Some \<lparr>cm_provider = None, cm_usage = Some (r_usage response),
                                  cm_finishReason = None, cm_stopReason = None\<rparr>
                       else None)\<rparr>])
      else sent)"
  by pat_completeness auto
termination
  by (relation "measure (\<lambda>(streamId, response, text, sentChars, sent). length text - sentChars)")
     (auto simp: chunkSize_def)

declare google_send.simps [simp del]

definition google_generateStream ::
  "miktos_shared \<Rightarrow> (nat \<Rightarrow> google_request \<Rightarrow> string + google_reply) \<Rightarrow> AIModelRequest
     \<Rightarrow> string \<Rightarrow> StreamChunk list \<times> (string + AIModelResponse)" where
  "google_generateStream S client params streamId =
     (case fst (google_generate S client params) of
        Inr response \<Rightarrow> (google_send streamId response (r_content response) 0 [], Inr response)
      | Inl message \<Rightarrow>
          ([error_chunk ''google'' streamId (modelId params) message],
           Inl (''Google AI Streaming Error: '' @ message)))"

section \<open>Notions used to state the properties\<close>

text \<open>The delays waited before attempt number \<open>i\<close> (counted from 0): 1000 ms, doubling.\<close>

definition backoff :: "nat \<Rightarrow> nat list" where
  "backoff i = map (\<lambda>j. 1000 * 2 ^ j) [0..<i]"

text \<open>Attempt \<open>j\<close> of the Google adapter fails with a message classified as a rate limit.\<close>

definition rate_limited ::
  "miktos_shared \<Rightarrow> (nat \<Rightarrow> google_request \<Rightarrow> string + google_reply) \<Rightarrow> AIModelRequest \<Rightarrow> nat \<Rightarrow> bool" where
  "rate_limited S client params j =
     (case google_try S (client j) params of Inl e \<Rightarrow> isRateLimitError e | Inr r \<Rightarrow> False)"

subsection \<open>Example requests and backends\<close>

definition hello_request :: "string \<Rightarrow> AIModelRequest" where
  "hello_request model =
     \<lparr>modelId = model, temperature = None, maxTokens = None, stopSequences = None,
      systemPrompt = None, prompt = StringPrompt ''hello world'', requestId = None\<rparr>"

definition google_ok :: google_reply where
  "google_ok = \<lparr>candidate_content = Some ''hi there'', candidate_finishReason = Some ''STOP''\<rparr>"

text \<open>A Google backend that fails with a rate-limit message on its first \<open>n\<close> calls and
  answers afterwards; one that always fails so; one that always fails with another message;
  one that answers with no candidate.\<close>

definition flaky_google :: "nat \<Rightarrow> nat \<Rightarrow> google_request \<Rightarrow> string + google_reply" where
  "flaky_google n calls request = (if calls < n then Inl ''Rate limit exceeded'' else Inr google_ok)"

definition exhausted_google :: "nat \<Rightarrow> google_request \<Rightarrow> string + google_reply" where
  "exhausted_google calls request = Inl ''Quota exceeded''"

definition denied_google :: "nat \<Rightarrow> google_request \<Rightarrow> string + google_reply" where
  "denied_google calls request = Inl ''Invalid API key''"

definition silent_google :: "nat \<Rightarrow> google_request \<Rightarrow> string + google_reply" where
  "silent_google calls request = Inr \<lparr>candidate_content = None, candidate_finishReason = None\<rparr>"

text \<open>An OpenAI backend that answers without usage, after \<open>n\<close> rate-limit failures.\<close>

definition openai_ok :: openai_reply where
  "openai_ok = \<lparr>choice_content = Some ''hi there'', choice_finish_reason = Some ''stop'',
                 reply_usage = None\<rparr>"

definition flaky_openai :: "nat \<Rightarrow> nat \<Rightarrow> openai_request \<Rightarrow> string + openai_reply" where
  "flaky_openai n calls request = (if calls < n then Inl ''Rate limit exceeded'' else Inr openai_ok)"

text \<open>A Google backend with an answer of 21 characters; an OpenAI stream that yields one delta
  without usage and ends; one that yields one delta and then throws.\<close>

definition long_google :: "nat \<Rightarrow> google_request \<Rightarrow> string + google_reply" where
  "long_google calls request =
     Inr \<lparr>candidate_content = Some ''hello from gemini pro'', candidate_finishReason = Some ''STOP''\<rparr>"

definition plain_openai_stream :: "openai_request \<Rightarrow> string + openai_stream_chunk js_stream" where
  "plain_openai_stream request =
     Inr ([\<lparr>delta_content = Some ''hi there'', chunk_usage = None\<rparr>], None)"

definition broken_openai :: "openai_request \<Rightarrow> string + openai_stream_chunk js_stream" where
  "broken_openai request =
     Inr ([\<lparr>delta_content = Some ''Hel'', chunk_usage = None\<rparr>], Some ''connection reset'')"

subsection \<open>Streams\<close>

text \<open>The chunks of a stream before its last: CONTENT_DELTA chunks that are not final.\<close>

definition plain_deltas :: "StreamChunk list \<Rightarrow> bool" where
  "plain_deltas cs = list_all (\<lambda>c. c_type c = CONTENT_DELTA \<and> \<not> c_isFinal c) cs"

text \<open>The loop invariant of the two true-streaming adapters: the accumulated content is the
  concatenation of the deltas sent, none of them final.\<close>

definition stream_state_ok :: "string \<times> nat \<times> nat \<times> StreamChunk list \<Rightarrow> bool" where
  "stream_state_ok st =
     (case st of (accumulatedContent, totalPromptTokens, totalCompletionTokens, sent) \<Rightarrow>
        plain_deltas sent \<and> concat (content_delta_texts sent) = accumulatedContent)"

text \<open>The streaming invariant of the spec: the deltas concatenate to the response's content,
  and exactly one chunk is final, the last one.\<close>

definition stream_invariant :: "StreamChunk list \<Rightarrow> AIModelResponse \<Rightarrow> bool" where
  "stream_invariant chunks response =
     (concat (content_delta_texts chunks) = r_content response \<and>
      length (filter c_isFinal chunks) = 1 \<and>
      chunks \<noteq> [] \<and> c_isFinal (last chunks))"

text \<open>A failed stream as a consumer sees it: exactly one ERROR chunk, which is the last chunk
  and the only final one, and whose message is the one the thrown error wraps.\<close>

definition signals_failure :: "string \<Rightarrow> StreamChunk list \<Rightarrow> string \<Rightarrow> bool" where
  "signals_failure prefix chunks e =
     (chunks \<noteq> [] \<and>
      length (filter (\<lambda>c. c_type c = ERROR) chunks) = 1 \<and>
      c_type (last chunks) = ERROR \<and>
      length (filter c_isFinal chunks) = 1 \<and>
      c_isFinal (last chunks) \<and>
      (case c_payload (last chunks) of
         ErrorPayload message \<Rightarrow> e = prefix @ message
       | TextPayload t \<Rightarrow> False))"

text \<open>Chunk number \<open>i\<close> (from 0) of the Google adapter's simulated stream of \<open>text\<close>.\<close>

definition google_chunk :: "string \<Rightarrow> AIModelResponse \<Rightarrow> string \<Rightarrow> nat \<Rightarrow> StreamChunk" where
  "google_chunk streamId response text i =
     \<lparr>c_streamId = streamId, c_type = CONTENT_DELTA,
      c_payload = TextPayload (take 10 (drop (10 * i) text)),
      c_isFinal = (length text \<le> 10 * i + 10),
      c_modelId = r_modelId response,
      c_metadata =
        (if length text \<le> 10 * i + 10
         then Some \<lparr>cm_provider = None, cm_usage = Some (r_usage response),
                    cm_finishReason = None, cm_stopReason = None\<rparr>
         else None)\<rparr>"

section \<open>Properties of the message normalizer\<close>

lemma renderBlock_nonempty: "renderBlock S block \<noteq> []"
  by (auto simp: renderBlock_def truthy_def fence_def split: option.splits)

text \<open>
  Claim C6, as the code has it. \<open>getTextFromContentBlocks\<close> is a total function that joins
  with a newline, in order, one non-empty rendering per block. A TEXT block with a non-empty
  text renders as that text; a CODE block with a non-empty code as a fenced block tagged with
  its language (no tag when the language is missing); a TOOL_USE block with a non-empty tool
  name as \<open>[Tool use: name]\<close>; every TOOL_RESULT block as \<open>[Tool result: json]\<close>; an IMAGE
  block with a non-empty caption as \<open>[Image: caption]\<close>. Every other block renders as
  \<open>[type content]\<close> (\<open>unknown\<close> for a missing or empty type): a block of a type outside the
  enum, and also a TEXT, CODE, TOOL_USE or IMAGE block whose text, code, tool name or caption
  is missing or empty.
\<close>

theorem blocks_to_text_rendering:
  "getTextFromContentBlocks S (BlockArray bs) = js_join newline (map (renderBlock S) bs)
   \<and> (\<forall>b \<in> set bs. renderBlock S b \<noteq> [])
   \<and> (\<forall>b t. b_type b = Some TEXT \<and> b_text b = Some t \<and> t \<noteq> [] \<longrightarrow> renderBlock S b = t)
   \<and> (\<forall>b c. b_type b = Some CODE \<and> b_code b = Some c \<and> c \<noteq> [] \<longrightarrow>
          renderBlock S b = fence @ or_else (b_language b) [] @ newline @ c @ newline @ fence)
   \<and> (\<forall>b n. b_type b = Some TOOL_USE \<and> b_toolName b = Some n \<and> n \<noteq> [] \<longrightarrow>
          renderBlock S b = ''[Tool use: '' @ n @ '']'')
   \<and> (\<forall>b. b_type b = Some TOOL_RESULT \<longrightarrow>
          renderBlock S b = ''[Tool result: '' @ b_result b @ '']'')
   \<and> (\<forall>b c. b_type b = Some IMAGE \<and> b_caption b = Some c \<and> c \<noteq> [] \<longrightarrow>
          renderBlock S b = ''[Image: '' @ c @ '']'')
   \<and> (\<forall>b ty. b_type b = Some (OTHER ty) \<longrightarrow>
          renderBlock S b = ''['' @ (if ty = [] then ''unknown'' else ty) @ '' content]'')
   \<and> (\<forall>b. b_type b = None \<longrightarrow> renderBlock S b = ''[unknown content]'')
   \<and> (\<forall>b. (b_type b = Some TEXT \<and> \<not> truthy (b_text b)) \<or>
            (b_type b = Some CODE \<and> \<not> truthy (b_code b)) \<or>
            (b_type b = Some TOOL_USE \<and> \<not> truthy (b_toolName b)) \<or>
            (b_type b = Some IMAGE \<and> \<not> truthy (b_caption b)) \<longrightarrow>
          renderBlock S b =
            ''['' @ (if type_string S (the (b_type b)) = [] then ''unknown''
                     else type_string S (the (b_type b))) @ '' content]'')"
proof (intro conjI)
  show "getTextFromContentBlocks S (BlockArray bs) = js_join newline (map (renderBlock S) bs)"
    by (simp add: getTextFromContentBlocks_def)
  show "\<forall>b \<in> set bs. renderBlock S b \<noteq> []"
    by (simp add: renderBlock_nonempty)
qed (auto simp: renderBlock_def truthy_def or_else_def split: option.splits)

theorem blocks_to_text_rendering_witness:
  "getTextFromContentBlocks example_shared (BlockArray
      [\<lparr>b_type = Some TEXT, b_text = Some ''hi'', b_code = None, b_language = None,
        b_toolName = None, b_result = ''null'', b_caption = None\<rparr>,
       \<lparr>b_type = Some IMAGE, b_text = None, b_code = None, b_language = None,
        b_toolName = None, b_result = ''null'', b_caption = None\<rparr>])
   = ''hi'' @ newline @ ''[image content]''"
  using blocks_to_text_rendering [of example_shared
      "[\<lparr>b_type = Some TEXT, b_text = Some ''hi'', b_code = None, b_language = None,
        b_toolName = None, b_result = ''null'', b_caption = None\<rparr>,
       \<lparr>b_type = Some IMAGE, b_text = None, b_code = None, b_language = None,
        b_toolName = None, b_result = ''null'', b_caption = None\<rparr>]"]
  by (simp add: truthy_def example_shared_def)

text \<open>
  Claim C6 as stated fails: a TEXT block whose raw text is the empty string does not render
  as its raw text but as the placeholder.
\<close>

theorem text_block_empty_counterexample:
  "getTextFromContentBlocks example_shared (BlockArray
      [\<lparr>b_type = Some TEXT, b_text = Some [], b_code = None, b_language = None,
        b_toolName = None, b_result = ''null'', b_caption = None\<rparr>]) = ''[text content]''
   \<and> getTextFromContentBlocks example_shared (BlockArray
      [\<lparr>b_type = Some TEXT, b_text = Some [], b_code = None, b_language = None,
        b_toolName = None, b_result = ''null'', b_caption = None\<rparr>]) \<noteq> []"
  by (simp add: getTextFromContentBlocks_def renderBlock_def truthy_def or_else_def example_shared_def)

section \<open>Properties of the cost estimator\<close>

lemma openai_prices_nonneg:
  "openai_costs S m = Some pr \<Longrightarrow> 0 \<le> p_input pr \<and> 0 \<le> p_output pr"
  by (auto simp: openai_costs_def split: if_splits)

lemma anthropic_prices_nonneg:
  "anthropic_costs S m = Some pr \<Longrightarrow> 0 \<le> p_input pr \<and> 0 \<le> p_output pr"
  by (auto simp: anthropic_costs_def split: if_splits)

lemma google_prices_nonneg:
  "google_costs S m = Some pr \<Longrightarrow> 0 \<le> p_input pr \<and> 0 \<le> p_output pr"
  by (auto simp: google_costs_def split: if_splits)

lemma openai_default_tier:
  "js_lookup (openai_costs S) (GPT_3_5_TURBO S) = Some (Own \<lparr>p_input = 0.0015, p_output = 0.002\<rparr>)"
  by (simp add: js_lookup_def openai_costs_def)

lemma anthropic_default_tier:
  "js_lookup (anthropic_costs S) (CLAUDE_3_HAIKU S)
     = Some (Own \<lparr>p_input = 0.00025, p_output = 0.00125\<rparr>)"
  by (simp add: js_lookup_def anthropic_costs_def)

lemma google_default_tier:
  "\<exists>pr. js_lookup (google_costs S) (GEMINI_PRO S) = Some (Own pr) \<and> google_costs S (GEMINI_PRO S) = Some pr"
  by (simp add: js_lookup_def google_costs_def)

text \<open>For a key that is not the name of an inherited member, the estimator reads an entry of
  the table (the key's own or the default tier's) and computes with its prices.\<close>

lemma cost_of_plain:
  assumes "m \<notin> set object_prototype_members"
    and "costs fallback = Some d"
  shows "\<exists>pr. (costs m = Some pr \<or> costs m = None \<and> pr = d) \<and>
           (\<forall>p c. cost_of costs fallback m p c
                    = Num (real p / 1000 * p_input pr + real c / 1000 * p_output pr))"
  using assms by (cases "costs m") (simp_all add: cost_of_def js_lookup_def Let_def)

text \<open>Away from the names of inherited members the three estimators are as the spec says:
  the cost is a number, 0 at 0 tokens, never negative and non-decreasing in both counts,
  and an id outside the table is priced at the default tier.\<close>

lemma openai_cost_plain:
  assumes "m \<notin> set object_prototype_members"
  shows "\<exists>pr. 0 \<le> p_input pr \<and> 0 \<le> p_output pr \<and>
           (m \<notin> {GPT_4 S, GPT_4_TURBO S, GPT_3_5_TURBO S} \<longrightarrow>
              pr = \<lparr>p_input = 0.0015, p_output = 0.002\<rparr>) \<and>
           (\<forall>p c. openai_calculateCost S m p c
                    = Num (real p / 1000 * p_input pr + real c / 1000 * p_output pr))"
proof -
  have d: "openai_costs S (GPT_3_5_TURBO S) = Some \<lparr>p_input = 0.0015, p_output = 0.002\<rparr>"
    by (simp add: openai_costs_def)
  from cost_of_plain [where costs = "openai_costs S" and fallback = "GPT_3_5_TURBO S", OF assms d] obtain pr where
    pr: "openai_costs S m = Some pr \<or> openai_costs S m = None \<and> pr = \<lparr>p_input = 0.0015, p_output = 0.002\<rparr>"
    and c: "\<forall>p c. cost_of (openai_costs S) (GPT_3_5_TURBO S) m p c
                    = Num (real p / 1000 * p_input pr + real c / 1000 * p_output pr)"
    by blast
  from pr have "0 \<le> p_input pr \<and> 0 \<le> p_output pr"
    using openai_prices_nonneg [of S m pr] by auto
  moreover from pr have "m \<notin> {GPT_4 S, GPT_4_TURBO S, GPT_3_5_TURBO S} \<longrightarrow>
      pr = \<lparr>p_input = 0.0015, p_output = 0.002\<rparr>"
    by (auto simp: openai_costs_def split: if_splits)
  ultimately show ?thesis using c by (auto simp: openai_calculateCost_def)
qed

lemma anthropic_cost_plain:
  assumes "m \<notin> set object_prototype_members"
  shows "\<exists>pr. 0 \<le> p_input pr \<and> 0 \<le> p_output pr \<and>
           (m \<notin> {CLAUDE_3_OPUS S, CLAUDE_3_SONNET S, CLAUDE_3_HAIKU S} \<longrightarrow>
              pr = \<lparr>p_input = 0.00025, p_output = 0.00125\<rparr>) \<and>
           (\<forall>p c. anthropic_calculateCost S m p c
                    = Num (real p / 1000 * p_input pr + real c / 1000 * p_output pr))"
proof -
  have d: "anthropic_costs S (CLAUDE_3_HAIKU S) = Some \<lparr>p_input = 0.00025, p_output = 0.00125\<rparr>"
    by (simp add: anthropic_costs_def)
  from cost_of_plain [where costs = "anthropic_costs S" and fallback = "CLAUDE_3_HAIKU S", OF assms d] obtain pr where
    pr: "anthropic_costs S m = Some pr \<or>
         anthropic_costs S m = None \<and> pr = \<lparr>p_input = 0.00025, p_output = 0.00125\<rparr>"
    and c: "\<forall>p c. cost_of (anthropic_costs S) (CLAUDE_3_HAIKU S) m p c
                    = Num (real p / 1000 * p_input pr + real c / 1000 * p_output pr)"
    by blast
  from pr have "0 \<le> p_input pr \<and> 0 \<le> p_output pr"
    using anthropic_prices_nonneg [of S m pr] by auto
  moreover from pr have "m \<notin> {CLAUDE_3_OPUS S, CLAUDE_3_SONNET S, CLAUDE_3_HAIKU S} \<longrightarrow>
      pr = \<lparr>p_input = 0.00025, p_output = 0.00125\<rparr>"
    by (auto simp: anthropic_costs_def split: if_splits)
  ultimately show ?thesis using c by (auto simp: anthropic_calculateCost_def)
qed

lemma google_cost_plain:
  assumes "m \<notin> set object_prototype_members"
  shows "\<exists>pr. 0 \<le> p_input pr \<and> 0 \<le> p_output pr \<and>
           (m \<notin> {GEMINI_PRO S, GEMINI_ULTRA S} \<longrightarrow> google_costs S (GEMINI_PRO S) = Some pr) \<and>
           (\<forall>p c. google_calculateCost S m p c
                    = Num (real p / 1000 * p_input pr + real c / 1000 * p_output pr))"
proof -
  obtain d where d: "google_costs S (GEMINI_PRO S) = Some d"
    using google_default_tier [of S] by blast
  from cost_of_plain [where costs = "google_costs S" and fallback = "GEMINI_PRO S", OF assms d] obtain pr where
    pr: "google_costs S m = Some pr \<or> google_costs S m = None \<and> pr = d"
    and c: "\<forall>p c. cost_of (google_costs S) (GEMINI_PRO S) m p c
                    = Num (real p / 1000 * p_input pr + real c / 1000 * p_output pr)"
    by blast
  from pr d have "0 \<le> p_input pr \<and> 0 \<le> p_output pr"
    using google_prices_nonneg [of S m pr] google_prices_nonneg [of S "GEMINI_PRO S" d] by auto
  moreover from pr d have "m \<notin> {GEMINI_PRO S, GEMINI_ULTRA S} \<longrightarrow> google_costs S (GEMINI_PRO S) = Some pr"
    by (auto simp: google_costs_def split: if_splits)
  ultimately show ?thesis using c by (auto simp: google_calculateCost_def)
qed

lemma inherited_key_nan:
  assumes "m \<in> set object_prototype_members" and "costs m = None"
  shows "cost_of costs fallback m p c = NaN"
  using assms by (simp add: cost_of_def js_lookup_def Let_def)

text \<open>
  Claim C9 against the code. For a model id that is the name of a member inherited from
  \<open>Object.prototype\<close>, such as \<open>constructor\<close>, \<open>toString\<close> or \<open>__proto__\<close>, the lookup
  \<open>costs[modelId]\<close> finds the inherited member, which is truthy, so the \<open>||\<close> fallback to
  the default tier is skipped and both products are \<open>NaN\<close>: the estimate is \<open>NaN\<close>, not 0 at 0
  tokens, not the default tier's price, and not comparable with any number. \<open>generate\<close>
  returns it as \<open>estimatedCost\<close> when a backend answers for such an id. For every other id the
  estimators are as claimed (lemmas \<open>openai_cost_plain\<close>, \<open>anthropic_cost_plain\<close> and
  \<open>google_cost_plain\<close>).
\<close>

theorem calculateCost_inherited_key:
  "openai_calculateCost example_shared ''constructor'' 0 0 = NaN
   \<and> anthropic_calculateCost example_shared ''toString'' 0 0 = NaN
   \<and> google_calculateCost example_shared ''__proto__'' 1000 500 = NaN
   \<and> openai_calculateCost example_shared ''gpt-9'' 0 0 = Num 0
   \<and> estimatedCost (r_usage (openai_response example_shared (hello_request ''constructor'') openai_ok))
       = NaN"
  by (simp add: openai_calculateCost_def anthropic_calculateCost_def google_calculateCost_def
        cost_of_def js_lookup_def object_prototype_members_def openai_costs_def
        anthropic_costs_def google_costs_def example_shared_def Let_def
        openai_response_def hello_request_def openai_ok_def num_or_def)

section \<open>Properties of the provider registry\<close>

lemma startsWith_take:
  assumes "startsWith m p" and "n \<le> length p"
  shows "take n m = take n p"
proof -
  from assms(1) have "take n (take (length p) m) = take n p"
    by (simp add: startsWith_def)
  with assms(2) show ?thesis by (simp add: min_def)
qed

lemma startsWith_claude_not_gpt: "startsWith m ''claude'' \<Longrightarrow> \<not> startsWith m ''gpt''"
  using startsWith_take [of m "''claude''" 3] startsWith_take [of m "''gpt''" 3] by auto

lemma startsWith_gemini_not_gpt: "startsWith m ''gemini'' \<Longrightarrow> \<not> startsWith m ''gpt''"
  using startsWith_take [of m "''gemini''" 3] startsWith_take [of m "''gpt''" 3] by auto

lemma startsWith_gemini_not_claude: "startsWith m ''gemini'' \<Longrightarrow> \<not> startsWith m ''claude''"
  using startsWith_take [of m "''gemini''" 6] startsWith_take [of m "''claude''" 6] by auto

text \<open>
  Claim C8. With the three credentials configured, \<open>getProviderForModel\<close> maps \<open>gpt-4\<close> to
  the OpenAI adapter, \<open>claude-3-haiku\<close> to the Anthropic adapter and \<open>gemini-pro\<close> to the
  Google adapter; it returns \<open>null\<close> for \<open>unknown-model-x\<close> and for every id with none of the
  three prefixes; for an id with a recognised prefix it returns what the registry holds for
  that family, which is nothing when the family's credential was missing. It is a function
  of the registry and the id.
\<close>

theorem getProviderForModel_resolution:
  "(truthy (openaiApiKey config) \<longrightarrow>
      getProviderForModel (initializeProviders config) ''gpt-4''
        = Some (OpenAIProvider (the (openaiApiKey config))))
   \<and> (truthy (anthropicApiKey config) \<longrightarrow>
      getProviderForModel (initializeProviders config) ''claude-3-haiku''
        = Some (AnthropicProvider (the (anthropicApiKey config))))
   \<and> (truthy (geminiApiKey config) \<longrightarrow>
      getProviderForModel (initializeProviders config) ''gemini-pro''
        = Some (GoogleAIProvider (the (geminiApiKey config))))
   \<and> getProviderForModel providers ''unknown-model-x'' = None
   \<and> (\<not> startsWith m ''gpt'' \<and> \<not> startsWith m ''claude'' \<and> \<not> startsWith m ''gemini'' \<longrightarrow>
        getProviderForModel providers m = None)
   \<and> (startsWith m ''gpt'' \<longrightarrow> getProviderForModel providers m = providers OPENAI)
   \<and> (startsWith m ''claude'' \<longrightarrow> getProviderForModel providers m = providers ANTHROPIC)
   \<and> (startsWith m ''gemini'' \<longrightarrow> getProviderForModel providers m = providers GOOGLE)
   \<and> (\<not> truthy (openaiApiKey config) \<longrightarrow> initializeProviders config OPENAI = None)
   \<and> (\<not> truthy (anthropicApiKey config) \<longrightarrow> initializeProviders config ANTHROPIC = None)
   \<and> (\<not> truthy (geminiApiKey config) \<longrightarrow> initializeProviders config GOOGLE = None)"
proof (intro conjI impI)
  show "getProviderForModel providers ''unknown-model-x'' = None"
    by (simp add: getProviderForModel_def startsWith_def)
next
  assume "startsWith m ''claude''"
  then show "getProviderForModel providers m = providers ANTHROPIC"
    using startsWith_claude_not_gpt [of m] by (simp add: getProviderForModel_def)
next
  assume "startsWith m ''gemini''"
  then show "getProviderForModel providers m = providers GOOGLE"
    using startsWith_gemini_not_gpt [of m] startsWith_gemini_not_claude [of m]
    by (simp add: getProviderForModel_def)
qed (simp_all add: getProviderForModel_def initializeProviders_def startsWith_def Let_def)

theorem getProviderForModel_resolution_witness:
  "getProviderForModel
     (initializeProviders \<lparr>openaiApiKey = Some ''sk-1'', anthropicApiKey = Some ''sk-2'',
                           geminiApiKey = Some ''sk-3''\<rparr>) ''gpt-4'' = Some (OpenAIProvider ''sk-1'')
   \<and> getProviderForModel
     (initializeProviders \<lparr>openaiApiKey = Some ''sk-1'', anthropicApiKey = Some ''sk-2'',
                           geminiApiKey = Some ''sk-3''\<rparr>) ''claude-3-haiku''
       = Some (AnthropicProvider ''sk-2'')
   \<and> getProviderForModel
     (initializeProviders \<lparr>openaiApiKey = Some ''sk-1'', anthropicApiKey = Some ''sk-2'',
                           geminiApiKey = Some ''sk-3''\<rparr>) ''gemini-pro''
       = Some (GoogleAIProvider ''sk-3'')
   \<and> getProviderForModel
     (initializeProviders \<lparr>openaiApiKey = Some ''sk-1'', anthropicApiKey = Some ''sk-2'',
                           geminiApiKey = Some ''sk-3''\<rparr>) ''unknown-model-x'' = None
   \<and> getProviderForModel
     (initializeProviders \<lparr>openaiApiKey = Some ''sk-1'', anthropicApiKey = None,
                           geminiApiKey = Some ''sk-3''\<rparr>) ''claude-3-haiku'' = None"
  using getProviderForModel_resolution
      [of "\<lparr>openaiApiKey = Some ''sk-1'', anthropicApiKey = Some ''sk-2'', geminiApiKey = Some ''sk-3''\<rparr>"
          "initializeProviders \<lparr>openaiApiKey = Some ''sk-1'', anthropicApiKey = Some ''sk-2'',
                           geminiApiKey = Some ''sk-3''\<rparr>" "''gpt-4''"]
    getProviderForModel_resolution
      [of "\<lparr>openaiApiKey = Some ''sk-1'', anthropicApiKey = None, geminiApiKey = Some ''sk-3''\<rparr>"
          "initializeProviders \<lparr>openaiApiKey = Some ''sk-1'', anthropicApiKey = None,
                           geminiApiKey = Some ''sk-3''\<rparr>" "''claude-3-haiku''"]
  by (simp add: truthy_def startsWith_def)

section \<open>Properties of \<open>formatMessages\<close>\<close>

lemma openai_push_native: "openai_push S acc m = acc @ [openai_native S m]"
  by (cases "m_role m") (simp_all add: openai_push_def openai_native_def Let_def)

lemma foldl_openai_push: "foldl (openai_push S) acc msgs = acc @ map (openai_native S) msgs"
  by (induction msgs arbitrary: acc) (simp_all add: openai_push_native)

text \<open>The OpenAI adapter emits, after the optional message synthesized from \<open>systemPrompt\<close>,
  one native message per input message in input order: a SYSTEM message becomes a
  system-role message and a TOOL message a tool-role message.\<close>

lemma openai_formatMessages_map:
  "openai_formatMessages S msgs sp =
     (if truthy sp then [\<lparr>om_role = ''system'', om_content = the sp, om_tool_call_id = None\<rparr>] else [])
     @ map (openai_native S) msgs"
  by (simp add: openai_formatMessages_def foldl_openai_push)

text \<open>The Google adapter emits one message per input message in input order, a SYSTEM
  message with author \<open>system\<close> and a TOOL message folded into author \<open>user\<close>.\<close>

lemma google_formatMessages_map:
  "map gm_content (google_formatMessages S msgs sp)
       = map (\<lambda>m. getTextFromContentBlocks S (m_content m)) msgs
   \<and> map gm_author (google_formatMessages S msgs sp)
       = map (\<lambda>m. Some (mapRoleToAuthor (m_role m))) msgs
   \<and> mapRoleToAuthor SYSTEM = ''system'' \<and> mapRoleToAuthor TOOL = ''user''"
  by (simp add: google_formatMessages_def Let_def comp_def)

text \<open>The Anthropic adapter's \<open>formatMessages\<close> keeps the order of the USER and ASSISTANT
  messages and returns nothing for any other message, SYSTEM or TOOL.\<close>

lemma anthropic_formatMessages_filter:
  "anthropic_formatMessages S msgs sp =
     map (\<lambda>m. \<lparr>am_role = (if m_role m = USER then ''user'' else ''assistant''),
                am_content = getTextFromContentBlocks S (m_content m)\<rparr>)
         (filter (\<lambda>m. m_role m = USER \<or> m_role m = ASSISTANT) msgs)"
  by (induction msgs) (simp_all add: anthropic_formatMessages_def anthropic_convert_def Let_def)

text \<open>
  Claim C4 against the code. The OpenAI and Google adapters do what the claim says (lemmas
  \<open>openai_formatMessages_map\<close> and \<open>google_formatMessages_map\<close>); the Anthropic adapter does
  not. Its \<open>formatMessages\<close> returns nothing for a SYSTEM message, with the comment that
  system messages are handled separately, but \<open>generate\<close> sends \<open>system: systemPrompt\<close> only:
  for a prompt of a SYSTEM and a USER message and no \<open>systemPrompt\<close>, the request carries the
  USER message alone and no \<open>system\<close>, so the SYSTEM message is dropped silently, while
  \<open>generateStream\<close> of the same adapter does route it into \<open>system\<close>. Its \<open>formatMessages\<close>
  also returns nothing for a TOOL message, where the Google adapter folds it into a
  user-author message.
\<close>

theorem anthropic_drops_system_and_tool:
  "a_messages (anthropic_generate_request example_shared
        \<lparr>modelId = ''claude-3-haiku'', temperature = None, maxTokens = None,
         stopSequences = None, systemPrompt = None,
         prompt = MessagePrompt [text_message SYSTEM ''be brief'', text_message USER ''hi''],
         requestId = None\<rparr>)
     = [\<lparr>am_role = ''user'', am_content = ''hi''\<rparr>]
   \<and> a_system (anthropic_generate_request example_shared
        \<lparr>modelId = ''claude-3-haiku'', temperature = None, maxTokens = None,
         stopSequences = None, systemPrompt = None,
         prompt = MessagePrompt [text_message SYSTEM ''be brief'', text_message USER ''hi''],
         requestId = None\<rparr>)
     = None
   \<and> anthropic_stream_system example_shared
        \<lparr>modelId = ''claude-3-haiku'', temperature = None, maxTokens = None,
         stopSequences = None, systemPrompt = None,
         prompt = MessagePrompt [text_message SYSTEM ''be brief'', text_message USER ''hi''],
         requestId = None\<rparr>
     = Some ''be brief''
   \<and> anthropic_formatMessages example_shared
        [text_message USER ''hi'', text_message TOOL ''42''] None
     = [\<lparr>am_role = ''user'', am_content = ''hi''\<rparr>]
   \<and> google_formatMessages example_shared
        [text_message USER ''hi'', text_message TOOL ''42''] None
     = [\<lparr>gm_content = ''hi'', gm_author = Some ''user''\<rparr>,
        \<lparr>gm_content = ''42'', gm_author = Some ''user''\<rparr>]"
  by (simp add: anthropic_formatMessages_def anthropic_convert_def text_message_def
        getTextFromContentBlocks_def renderBlock_def truthy_def Let_def
        anthropic_request_of_def anthropic_generate_request_def anthropic_generate_messages_def
        anthropic_stream_system_def google_formatMessages_def)

section \<open>Properties of \<open>generate\<close>\<close>

lemma ceiling_quarter: "nat \<lceil>real n / 4\<rceil> = (n + 3) div 4"
proof -
  have "\<lceil>real n / 4\<rceil> = - (- int n div 4)"
    using ceiling_divide_eq_div [where 'a = real, of "int n" 4] by simp
  also have "\<dots> = (int n + 3) div 4" by presburger
  also have "\<dots> = int ((n + 3) div 4)" by (simp add: zdiv_int)
  finally show ?thesis by simp
qed

lemma google_countTokens_div: "google_countTokens t = (length t + 3) div 4"
  by (simp add: google_countTokens_def ceiling_quarter)

lemma openai_countTokens_div: "openai_countTokens t = (length t + 3) div 4"
  by (simp add: openai_countTokens_def ceiling_quarter)

lemma anthropic_countTokens_div: "anthropic_countTokens t = (2 * length t + 8) div 9"
proof -
  have "real (length t) / 4.5 = real_of_int (int (2 * length t)) / real_of_int 9" by simp
  then have "\<lceil>real (length t) / 4.5\<rceil> = - (- int (2 * length t) div 9)"
    using ceiling_divide_eq_div [where 'a = real, of "int (2 * length t)" 9]
    by (simp add: mult.commute)
  also have "\<dots> = (int (2 * length t) + 8) div 9" by presburger
  also have "\<dots> = int ((2 * length t + 8) div 9)" by (simp add: zdiv_int)
  finally show ?thesis by (simp add: anthropic_countTokens_def)
qed

lemma rate_limit_message: "isRateLimitError ''Rate limit exceeded''"
  by (simp add: isRateLimitError_def toLowerCase_def lower_char_def startsWith_def char_of_eq_iff)

lemma quota_message: "isRateLimitError ''Quota exceeded''"
  by (simp add: isRateLimitError_def toLowerCase_def lower_char_def startsWith_def char_of_eq_iff)

lemma loop_retry:
  assumes "rate_limited S client params calls" and "retries < maxRetries"
  shows "google_generate_loop S client params retries delay calls waits
         = google_generate_loop S client params (retries + 1) (delay * 2) (calls + 1) (waits @ [delay])"
  using assms
  by (subst google_generate_loop.simps) (auto simp: rate_limited_def split: sum.splits)

lemma loop_stop_error:
  assumes "google_try S (client calls) params = Inl e" and "\<not> isRateLimitError e"
    and "retries \<le> maxRetries"
  shows "google_generate_loop S client params retries delay calls waits
         = (Inl (''Google AI API Error: '' @ e), calls + 1, waits)"
  using assms by (subst google_generate_loop.simps) simp

lemma loop_stop_last:
  assumes "google_try S (client calls) params = Inl e" and "retries = maxRetries"
  shows "google_generate_loop S client params retries delay calls waits
         = (Inl (''Google AI API Error: '' @ e), calls + 1, waits)"
  using assms by (subst google_generate_loop.simps) simp

lemma loop_stop_ok:
  assumes "google_try S (client calls) params = Inr r" and "retries \<le> maxRetries"
  shows "google_generate_loop S client params retries delay calls waits = (Inr r, calls + 1, waits)"
  using assms by (subst google_generate_loop.simps) simp

lemma loop_skip:
  assumes "\<forall>j<k. rate_limited S client params (calls + j)" and "retries + k \<le> maxRetries"
  shows "google_generate_loop S client params retries delay calls waits
         = google_generate_loop S client params (retries + k) (delay * 2 ^ k) (calls + k)
             (waits @ map (\<lambda>j. delay * 2 ^ j) [0..<k])"
  using assms
proof (induction k)
  case 0
  then show ?case by simp
next
  case (Suc k)
  then have "google_generate_loop S client params retries delay calls waits
         = google_generate_loop S client params (retries + k) (delay * 2 ^ k) (calls + k)
             (waits @ map (\<lambda>j. delay * 2 ^ j) [0..<k])"
    by simp
  also have "\<dots> = google_generate_loop S client params (retries + k + 1) (delay * 2 ^ k * 2)
             (calls + k + 1) ((waits @ map (\<lambda>j. delay * 2 ^ j) [0..<k]) @ [delay * 2 ^ k])"
    using Suc.prems by (intro loop_retry) auto
  finally show ?case by (simp add: mult_ac)
qed

lemma generate_skip:
  assumes "i \<le> 3" and "\<forall>j<i. rate_limited S client params j"
  shows "google_generate S client params
         = google_generate_loop S client params i (1000 * 2 ^ i) i (backoff i)"
  using assms loop_skip [of i S client params 0 0 1000 "[]"]
  by (simp add: google_generate_def backoff_def maxRetries_def)

lemma loop_last:
  assumes "i \<le> 3" and "\<not> rate_limited S client params i \<or> i = 3"
  shows "google_generate_loop S client params i d i w =
     (case google_try S (client i) params of
        Inr r \<Rightarrow> (Inr r, i + 1, w)
      | Inl e \<Rightarrow> (Inl (''Google AI API Error: '' @ e), i + 1, w))"
proof (cases "google_try S (client i) params")
  case (Inl e)
  show ?thesis
  proof (cases "i = 3")
    case True
    then show ?thesis using Inl loop_stop_last [of S client i params e i d w]
      by (simp add: maxRetries_def)
  next
    case False
    with assms Inl have "\<not> isRateLimitError e" by (simp add: rate_limited_def)
    then show ?thesis using Inl assms(1) loop_stop_error [of S client i params e i d w]
      by (simp add: maxRetries_def)
  qed
next
  case (Inr r)
  then show ?thesis using assms(1) loop_stop_ok [of S client i params r i d w]
    by (simp add: maxRetries_def)
qed

text \<open>Every run of \<open>generate\<close> ends at some attempt \<open>i \<le> 3\<close>, after rate-limit failures only,
  with the result of that attempt.\<close>

lemma generate_cases:
  "\<exists>i\<le>3. (\<forall>j<i. rate_limited S client params j) \<and>
     google_generate S client params =
       (case google_try S (client i) params of
          Inr r \<Rightarrow> (Inr r, i + 1, backoff i)
        | Inl e \<Rightarrow> (Inl (''Google AI API Error: '' @ e), i + 1, backoff i))"
proof -
  let ?rl = "rate_limited S client params"
  define i where "i = (if \<not> ?rl 0 then 0 else if \<not> ?rl 1 then 1 else if \<not> ?rl 2 then 2 else (3::nat))"
  have i3: "i \<le> 3" by (simp add: i_def)
  have small: "j = 0 \<or> j = 1 \<or> j = 2" if "j < 3" for j :: nat using that by linarith
  have before: "\<forall>j<i. ?rl j"
  proof (intro allI impI)
    fix j assume "j < i"
    with i3 have "j < 3" by simp
    with small have "j = 0 \<or> j = 1 \<or> j = 2" by simp
    with \<open>j < i\<close> show "?rl j" by (auto simp: i_def split: if_splits)
  qed
  have "\<not> ?rl i \<or> i = 3" by (simp add: i_def)
  with i3 have "google_generate_loop S client params i (1000 * 2 ^ i) i (backoff i) =
     (case google_try S (client i) params of
        Inr r \<Rightarrow> (Inr r, i + 1, backoff i)
      | Inl e \<Rightarrow> (Inl (''Google AI API Error: '' @ e), i + 1, backoff i))"
    by (rule loop_last)
  with generate_skip [OF i3 before] i3 before show ?thesis by auto
qed

lemma generate_bounds:
  "case google_generate S client params of
     (res, calls, waits) \<Rightarrow> 1 \<le> calls \<and> calls \<le> 4 \<and> waits = backoff (calls - 1)"
proof -
  obtain i where i: "i \<le> 3"
    and g: "google_generate S client params =
       (case google_try S (client i) params of
          Inr r \<Rightarrow> (Inr r, i + 1, backoff i)
        | Inl e \<Rightarrow> (Inl (''Google AI API Error: '' @ e), i + 1, backoff i))"
    using generate_cases [of S client params] by blast
  show ?thesis
    by (cases "google_try S (client i) params") (use i g in simp_all)
qed

lemma generate_success:
  assumes "fst (google_generate S client params) = Inr r"
  shows "\<exists>i\<le>3. google_try S (client i) params = Inr r"
proof -
  obtain i where i: "i \<le> 3"
    and g: "google_generate S client params =
       (case google_try S (client i) params of
          Inr r \<Rightarrow> (Inr r, i + 1, backoff i)
        | Inl e \<Rightarrow> (Inl (''Google AI API Error: '' @ e), i + 1, backoff i))"
    using generate_cases [of S client params] by blast
  have "google_try S (client i) params = Inr r"
    by (cases "google_try S (client i) params") (use assms g in simp_all)
  with i show ?thesis by blast
qed

text \<open>A failed \<open>generate\<close> always rethrows the message of its last attempt: the \<open>throw\<close>
  after the loop is never reached.\<close>

lemma generate_error_wraps:
  assumes "fst (google_generate S client params) = Inl e"
  shows "\<exists>i\<le>3. \<exists>m. google_try S (client i) params = Inl m \<and> e = ''Google AI API Error: '' @ m"
proof -
  obtain i where i: "i \<le> 3"
    and g: "google_generate S client params =
       (case google_try S (client i) params of
          Inr r \<Rightarrow> (Inr r, i + 1, backoff i)
        | Inl e \<Rightarrow> (Inl (''Google AI API Error: '' @ e), i + 1, backoff i))"
    using generate_cases [of S client params] by blast
  have "\<exists>m. google_try S (client i) params = Inl m \<and> e = ''Google AI API Error: '' @ m"
    by (cases "google_try S (client i) params") (use assms g in auto)
  with i show ?thesis by blast
qed

text \<open>
  Claim C2, as the code has it. The Google adapter's \<open>generate\<close> makes between 1 and 4 backend
  calls and waits 1000 ms, 2000 ms, 4000 ms before the second, third and fourth; it goes on
  to the next attempt only after a failure whose message contains quota, rate or limit
  (in any letter case). A failure with another message at attempt \<open>i\<close> ends the call at once
  with the message wrapped as \<open>Google AI API Error: ...\<close>, and a success at attempt \<open>i\<close> is
  returned. The OpenAI and Anthropic adapters' \<open>generate\<close> make exactly one backend call and
  wait for nothing: every failure, rate limit or not, is rethrown at once, wrapped with the
  provider's name.
\<close>

theorem generate_retry_policy:
  "(case google_generate S client params of
      (res, calls, waits) \<Rightarrow> 1 \<le> calls \<and> calls \<le> 4 \<and> waits = backoff (calls - 1))
   \<and> (i \<le> 3 \<and> (\<forall>j<i. rate_limited S client params j) \<and>
        google_try S (client i) params = Inl e \<and> \<not> isRateLimitError e \<longrightarrow>
        google_generate S client params = (Inl (''Google AI API Error: '' @ e), i + 1, backoff i))
   \<and> (i \<le> 3 \<and> (\<forall>j<i. rate_limited S client params j) \<and>
        google_try S (client i) params = Inr r \<longrightarrow>
        google_generate S client params = (Inr r, i + 1, backoff i))
   \<and> snd (openai_generate S oclient params) = (1, [])
   \<and> (oclient 0 (openai_request_of S params False) = Inl e \<longrightarrow>
        fst (openai_generate S oclient params) = Inl (''OpenAI API Error: '' @ e))
   \<and> snd (anthropic_generate S aclient params) = (1, [])
   \<and> (aclient 0 (anthropic_generate_request S params) = Inl e \<longrightarrow>
        fst (anthropic_generate S aclient params) = Inl (''Anthropic API Error: '' @ e))"
proof (intro conjI impI)
  show "case google_generate S client params of
      (res, calls, waits) \<Rightarrow> 1 \<le> calls \<and> calls \<le> 4 \<and> waits = backoff (calls - 1)"
    by (rule generate_bounds)
next
  assume a: "i \<le> 3 \<and> (\<forall>j<i. rate_limited S client params j) \<and>
        google_try S (client i) params = Inl e \<and> \<not> isRateLimitError e"
  then show "google_generate S client params = (Inl (''Google AI API Error: '' @ e), i + 1, backoff i)"
    using generate_skip [of i S client params]
      loop_stop_error [of S client i params e i "1000 * 2 ^ i" "backoff i"]
    by (simp add: maxRetries_def)
next
  assume a: "i \<le> 3 \<and> (\<forall>j<i. rate_limited S client params j) \<and>
        google_try S (client i) params = Inr r"
  then show "google_generate S client params = (Inr r, i + 1, backoff i)"
    using generate_skip [of i S client params]
      loop_stop_ok [of S client i params r i "1000 * 2 ^ i" "backoff i"]
    by (simp add: maxRetries_def)
qed (auto simp: openai_generate_def anthropic_generate_def split: sum.splits)

lemma foldl_add_sum: "foldl (\<lambda>total x. total + f x) a xs = (a::nat) + sum_list (map f xs)"
  by (induction xs arbitrary: a) simp_all

lemma google_try_usage:
  assumes "google_try S c params = Inr r"
  shows "promptTokens (r_usage r) =
           (case prompt params of
              StringPrompt p \<Rightarrow> google_countTokens p
            | MessagePrompt msgs \<Rightarrow>
                sum_list (map (\<lambda>m. google_countTokens (getTextFromContentBlocks S (m_content m))) msgs))
         \<and> completionTokens (r_usage r) = google_countTokens (r_content r)
         \<and> totalTokens (r_usage r) = promptTokens (r_usage r) + completionTokens (r_usage r)
         \<and> estimatedCost (r_usage r) =
             google_calculateCost S (modelId params) (promptTokens (r_usage r)) (completionTokens (r_usage r))"
  using assms
  by (auto simp: google_try_def Let_def foldl_add_sum split: prompt_value.splits sum.splits)

text \<open>
  What a successful \<open>generate\<close> reports. The Google adapter estimates: the prompt tokens are
  the token estimate of the prompt string, or the sum of the estimates of every input
  message's normalized text, the completion tokens the estimate of the output text, the
  total their sum. The OpenAI and Anthropic adapters report the counts of the backend's
  reply and compute no estimate.
\<close>

lemma generate_usage_facts:
  "(fst (google_generate S client params) = Inr r \<longrightarrow>
      promptTokens (r_usage r) =
        (case prompt params of
           StringPrompt p \<Rightarrow> google_countTokens p
         | MessagePrompt msgs \<Rightarrow>
             sum_list (map (\<lambda>m. google_countTokens (getTextFromContentBlocks S (m_content m))) msgs))
      \<and> completionTokens (r_usage r) = google_countTokens (r_content r)
      \<and> totalTokens (r_usage r) = promptTokens (r_usage r) + completionTokens (r_usage r)
      \<and> estimatedCost (r_usage r) =
          google_calculateCost S (modelId params) (promptTokens (r_usage r)) (completionTokens (r_usage r)))
   \<and> (oclient 0 (openai_request_of S params False) = Inr oreply \<longrightarrow>
        fst (openai_generate S oclient params) = Inr (openai_response S params oreply)
        \<and> promptTokens (r_usage (openai_response S params oreply))
            = (case reply_usage oreply of None \<Rightarrow> 0 | Some u \<Rightarrow> prompt_tokens u)
        \<and> completionTokens (r_usage (openai_response S params oreply))
            = (case reply_usage oreply of None \<Rightarrow> 0 | Some u \<Rightarrow> completion_tokens u)
        \<and> totalTokens (r_usage (openai_response S params oreply))
            = (case reply_usage oreply of None \<Rightarrow> 0 | Some u \<Rightarrow> total_tokens u))
   \<and> (aclient 0 (anthropic_generate_request S params) = Inr areply \<longrightarrow>
        fst (anthropic_generate S aclient params) = Inr (anthropic_response S params areply)
        \<and> promptTokens (r_usage (anthropic_response S params areply))
            = (case reply_usage_a areply of None \<Rightarrow> 0 | Some u \<Rightarrow> num_or (input_tokens u) 0)
        \<and> completionTokens (r_usage (anthropic_response S params areply))
            = (case reply_usage_a areply of None \<Rightarrow> 0 | Some u \<Rightarrow> num_or (output_tokens u) 0)
        \<and> totalTokens (r_usage (anthropic_response S params areply))
            = promptTokens (r_usage (anthropic_response S params areply))
              + completionTokens (r_usage (anthropic_response S params areply)))"
proof (intro conjI impI)
  assume ok: "fst (google_generate S client params) = Inr r"
  then obtain i where "google_try S (client i) params = Inr r"
    using generate_success by blast
  then have u: "promptTokens (r_usage r) =
           (case prompt params of
              StringPrompt p \<Rightarrow> google_countTokens p
            | MessagePrompt msgs \<Rightarrow>
                sum_list (map (\<lambda>m. google_countTokens (getTextFromContentBlocks S (m_content m))) msgs))
         \<and> completionTokens (r_usage r) = google_countTokens (r_content r)
         \<and> totalTokens (r_usage r) = promptTokens (r_usage r) + completionTokens (r_usage r)
         \<and> estimatedCost (r_usage r) =
             google_calculateCost S (modelId params) (promptTokens (r_usage r)) (completionTokens (r_usage r))"
    by (rule google_try_usage)
  from u show "promptTokens (r_usage r) =
           (case prompt params of
              StringPrompt p \<Rightarrow> google_countTokens p
            | MessagePrompt msgs \<Rightarrow>
                sum_list (map (\<lambda>m. google_countTokens (getTextFromContentBlocks S (m_content m))) msgs))"
    by simp
  from u show "completionTokens (r_usage r) = google_countTokens (r_content r)" by simp
  from u show "totalTokens (r_usage r) = promptTokens (r_usage r) + completionTokens (r_usage r)"
    by simp
  from u show "estimatedCost (r_usage r) =
             google_calculateCost S (modelId params) (promptTokens (r_usage r)) (completionTokens (r_usage r))"
    by simp
qed (auto simp: openai_generate_def openai_response_def anthropic_generate_def
      anthropic_response_def num_or_def Let_def split: option.splits)

lemma google_try_flaky:
  "google_try example_shared (flaky_google 2 j) (hello_request ''gemini-pro'') =
     (if j < 2 then Inl ''Rate limit exceeded''
      else Inr \<lparr>r_modelId = ''gemini-pro'', r_provider = ''google'', r_content = ''hi there'',
             r_usage = \<lparr>promptTokens = 3, completionTokens = 2, totalTokens = 5,
                        estimatedCost = Num (9 / 800000)\<rparr>,
             r_metadata = \<lparr>finishReason = Some ''STOP'', stopReason = None\<rparr>\<rparr>)"
  by (simp add: google_try_def flaky_google_def hello_request_def google_ok_def or_else_def finish_or_null_def truthy_def
        google_countTokens_div google_calculateCost_def cost_of_def js_lookup_def google_costs_def
        example_shared_def Let_def)

lemma flaky_google_result:
  "google_generate example_shared (flaky_google 2) (hello_request ''gemini-pro'') =
     (Inr \<lparr>r_modelId = ''gemini-pro'', r_provider = ''google'', r_content = ''hi there'',
           r_usage = \<lparr>promptTokens = 3, completionTokens = 2, totalTokens = 5,
                      estimatedCost = Num (9 / 800000)\<rparr>,
           r_metadata = \<lparr>finishReason = Some ''STOP'', stopReason = None\<rparr>\<rparr>,
      3, [1000, 2000])"
proof -
  have rl: "\<forall>j<2. rate_limited example_shared (flaky_google 2) (hello_request ''gemini-pro'') j"
    by (simp add: rate_limited_def google_try_flaky rate_limit_message)
  have "google_generate example_shared (flaky_google 2) (hello_request ''gemini-pro'')
        = google_generate_loop example_shared (flaky_google 2) (hello_request ''gemini-pro'')
            2 (1000 * 2 ^ 2) 2 (backoff 2)"
    using rl by (intro generate_skip) auto
  also have "\<dots> = (Inr \<lparr>r_modelId = ''gemini-pro'', r_provider = ''google'', r_content = ''hi there'',
           r_usage = \<lparr>promptTokens = 3, completionTokens = 2, totalTokens = 5,
                      estimatedCost = Num (9 / 800000)\<rparr>,
           r_metadata = \<lparr>finishReason = Some ''STOP'', stopReason = None\<rparr>\<rparr>, 2 + 1, backoff 2)"
    by (intro loop_stop_ok) (simp_all add: google_try_flaky maxRetries_def)
  finally show ?thesis by (simp add: backoff_def upt_rec)
qed

text \<open>The retry property of the spec's section 8: a backend that fails with a rate-limit
  message exactly twice succeeds at the third attempt, after waits of 1000 ms and 2000 ms.\<close>

lemma denied_message: "\<not> isRateLimitError ''Invalid API key''"
  by (simp add: isRateLimitError_def toLowerCase_def lower_char_def startsWith_def char_of_eq_iff)

lemma denied_try:
  "google_try example_shared (denied_google j) (hello_request ''gemini-pro'') = Inl ''Invalid API key''"
  by (simp add: google_try_def denied_google_def hello_request_def)

theorem generate_retry_policy_witness:
  "google_generate example_shared (flaky_google 2) (hello_request ''gemini-pro'') =
     (Inr \<lparr>r_modelId = ''gemini-pro'', r_provider = ''google'', r_content = ''hi there'',
           r_usage = \<lparr>promptTokens = 3, completionTokens = 2, totalTokens = 5,
                      estimatedCost = Num (9 / 800000)\<rparr>,
           r_metadata = \<lparr>finishReason = Some ''STOP'', stopReason = None\<rparr>\<rparr>,
      3, [1000, 2000])
   \<and> google_generate example_shared denied_google (hello_request ''gemini-pro'') =
     (Inl ''Google AI API Error: Invalid API key'', 1, [])"
  using generate_retry_policy [of example_shared "flaky_google 2" "hello_request ''gemini-pro''" 2
      _ "\<lparr>r_modelId = ''gemini-pro'', r_provider = ''google'', r_content = ''hi there'',
           r_usage = \<lparr>promptTokens = 3, completionTokens = 2, totalTokens = 5,
                      estimatedCost = Num (9 / 800000)\<rparr>,
           r_metadata = \<lparr>finishReason = Some ''STOP'', stopReason = None\<rparr>\<rparr>"]
    generate_retry_policy [of example_shared denied_google "hello_request ''gemini-pro''" 0
      "''Invalid API key''"]
  by (simp add: rate_limited_def google_try_flaky rate_limit_message denied_try denied_message
        backoff_def upt_rec)

text \<open>
  Claim C2 as stated fails on the OpenAI adapter: a failure whose text is a rate limit is
  not retried. The backend here would have answered a second call.
\<close>

theorem openai_no_retry_counterexample:
  "isRateLimitError ''Rate limit exceeded''
   \<and> openai_generate example_shared (flaky_openai 1) (hello_request ''gpt-4'')
       = (Inl ''OpenAI API Error: Rate limit exceeded'', 1, [])"
  by (simp add: rate_limit_message openai_generate_def flaky_openai_def)

lemma exhausted_try:
  "google_try example_shared (exhausted_google j) (hello_request ''gemini-pro'') = Inl ''Quota exceeded''"
  by (simp add: google_try_def exhausted_google_def hello_request_def)

text \<open>
  Claim C3 against the code. With a backend that fails with a rate-limit message on every
  attempt, the Google adapter's \<open>generate\<close> fails after 3 retries (4 attempts, waits of 1000,
  2000 and 4000 ms), but the error it throws carries the backend's last message, not
  \<open>Maximum retry limit reached\<close>: the fourth failure is rethrown from the \<open>catch\<close> block, and
  the \<open>throw\<close> after the loop is never reached.
\<close>

theorem retry_exhaustion_message:
  "isRateLimitError ''Quota exceeded''
   \<and> google_generate example_shared exhausted_google (hello_request ''gemini-pro'')
       = (Inl ''Google AI API Error: Quota exceeded'', 4, [1000, 2000, 4000])"
proof -
  have rl: "rate_limited example_shared exhausted_google (hello_request ''gemini-pro'') j" for j
    by (simp add: rate_limited_def exhausted_try quota_message)
  have "google_generate example_shared exhausted_google (hello_request ''gemini-pro'')
        = google_generate_loop example_shared exhausted_google (hello_request ''gemini-pro'')
            3 (1000 * 2 ^ 3) 3 (backoff 3)"
    using rl by (intro generate_skip) auto
  also have "\<dots> = (Inl (''Google AI API Error: '' @ ''Quota exceeded''), 3 + 1, backoff 3)"
    by (intro loop_stop_last) (simp_all add: exhausted_try maxRetries_def)
  finally show ?thesis by (simp add: quota_message backoff_def upt_rec)
qed

text \<open>
  Claim C5 against the code. When the OpenAI backend's reply carries no usage, \<open>generate\<close>
  returns a usage of 0 tokens and cost 0, where the claim asks for the estimates (3 tokens
  for the prompt \<open>hello world\<close>, 2 for the output \<open>hi there\<close>): the method reads
  \<open>response.usage?.prompt_tokens || 0\<close> and never estimates. \<open>generateStream\<close> of the same
  adapter does estimate when the stream carried no usage, and returns 3 and 2 for the
  same prompt and output.
\<close>

theorem openai_generate_zero_usage:
  "fst (openai_generate example_shared (flaky_openai 0) (hello_request ''gpt-4''))
     = Inr \<lparr>r_modelId = ''gpt-4'', r_provider = ''openai'', r_content = ''hi there'',
           r_usage = \<lparr>promptTokens = 0, completionTokens = 0, totalTokens = 0,
                      estimatedCost = Num 0\<rparr>,
           r_metadata = \<lparr>finishReason = Some ''stop'', stopReason = None\<rparr>\<rparr>
   \<and> openai_countTokens ''hello world'' = 3
   \<and> openai_countTokens ''hi there'' = 2
   \<and> snd (openai_generateStream example_shared plain_openai_stream (hello_request ''gpt-4'') ''s1'')
     = Inr \<lparr>r_modelId = ''gpt-4'', r_provider = ''openai'', r_content = ''hi there'',
           r_usage = \<lparr>promptTokens = 3, completionTokens = 2, totalTokens = 5,
                      estimatedCost = Num (21 / 100000)\<rparr>,
           r_metadata = \<lparr>finishReason = Some ''stop'', stopReason = None\<rparr>\<rparr>"
  by (simp add: openai_generate_def flaky_openai_def openai_ok_def openai_response_def
        hello_request_def or_else_def num_or_def openai_countTokens_div
        openai_calculateCost_def cost_of_def js_lookup_def openai_costs_def example_shared_def
        Let_def openai_generateStream_def plain_openai_stream_def openai_stream_step_def
        openai_request_of_def openai_messages_def truthy_def)

section \<open>Properties of \<open>generateStream\<close>\<close>

lemma content_delta_texts_append:
  "content_delta_texts (xs @ ys) = content_delta_texts xs @ content_delta_texts ys"
  by (simp add: content_delta_texts_def)

lemma plain_deltas_append: "plain_deltas (xs @ ys) = (plain_deltas xs \<and> plain_deltas ys)"
  by (simp add: plain_deltas_def)

lemma plain_deltas_no_final: "plain_deltas xs \<Longrightarrow> filter c_isFinal xs = []"
  by (induction xs) (simp_all add: plain_deltas_def)

lemma plain_deltas_no_error: "plain_deltas xs \<Longrightarrow> filter (\<lambda>c. c_type c = ERROR) xs = []"
  by (induction xs) (simp_all add: plain_deltas_def)

lemma foldl_invariant:
  assumes "\<And>s x. P s \<Longrightarrow> P (f s x)" and "P s"
  shows "P (foldl f s xs)"
  using assms(2) by (induction xs arbitrary: s) (simp_all add: assms(1))

lemma openai_step_ok: "stream_state_ok st \<Longrightarrow> stream_state_ok (openai_stream_step sid model st chunk)"
  by (cases st)
     (auto simp: stream_state_ok_def openai_stream_step_def Let_def plain_deltas_def
        content_delta_texts_def split: option.splits)

lemma anthropic_step_ok:
  "stream_state_ok st \<Longrightarrow> stream_state_ok (anthropic_stream_step sid model st chunk)"
  by (cases st)
     (auto simp: stream_state_ok_def anthropic_stream_step_def Let_def plain_deltas_def
        content_delta_texts_def split: option.splits anthropic_event.splits anthropic_delta.splits)

lemma openai_fold_ok:
  "stream_state_ok (foldl (openai_stream_step sid model) ([], 0, 0, []) chunks)"
proof (rule foldl_invariant [where P = stream_state_ok])
  show "stream_state_ok ([], 0, 0, [])"
    by (simp add: stream_state_ok_def plain_deltas_def content_delta_texts_def)
qed (rule openai_step_ok)

lemma anthropic_fold_ok:
  "stream_state_ok (foldl (anthropic_stream_step sid model) ([], 0, 0, []) chunks)"
proof (rule foldl_invariant [where P = stream_state_ok])
  show "stream_state_ok ([], 0, 0, [])"
    by (simp add: stream_state_ok_def plain_deltas_def content_delta_texts_def)
qed (rule anthropic_step_ok)

lemma error_chunk_fields:
  "c_type (error_chunk p sid m e) = ERROR" "c_isFinal (error_chunk p sid m e)"
  "c_payload (error_chunk p sid m e) = ErrorPayload e"
  by (simp_all add: error_chunk_def)

lemma signals_failure_intro:
  assumes "plain_deltas pre"
  shows "signals_failure prefix (pre @ [error_chunk p sid m e]) (prefix @ e)"
  using assms
  by (simp add: signals_failure_def plain_deltas_no_final plain_deltas_no_error error_chunk_fields)

lemma stream_invariant_intro:
  assumes "plain_deltas pre" and "concat (content_delta_texts pre) = r_content r"
    and "c_type fin = CONTENT_DELTA" and "c_payload fin = TextPayload []" and "c_isFinal fin"
  shows "stream_invariant (pre @ [fin]) r"
  using assms
  by (simp add: stream_invariant_def plain_deltas_no_final content_delta_texts_append)
     (simp add: content_delta_texts_def)

lemma openai_stream_failure:
  assumes "snd (openai_generateStream S client params sid) = Inl e"
  shows "signals_failure ''OpenAI Streaming Error: '' (fst (openai_generateStream S client params sid)) e"
proof (cases "client (openai_request_of S params True)")
  case (Inl m)
  then show ?thesis
    using assms signals_failure_intro [of "[]" "''OpenAI Streaming Error: ''" "''openai''" sid "modelId params" m]
    by (simp add: openai_generateStream_def Let_def plain_deltas_def)
next
  case (Inr stream)
  obtain chunks failure where stream: "stream = (chunks, failure)" by (cases stream)
  obtain acc pt ct sent where
    st: "foldl (openai_stream_step sid (modelId params)) ([], 0, 0, []) chunks = (acc, pt, ct, sent)"
    by (cases "foldl (openai_stream_step sid (modelId params)) ([], 0, 0, []) chunks") auto
  have ok: "plain_deltas sent"
    using openai_fold_ok [of sid "modelId params" chunks] st by (simp add: stream_state_ok_def)
  show ?thesis
  proof (cases failure)
    case None
    then show ?thesis using assms Inr stream st
      by (simp add: openai_generateStream_def Let_def)
  next
    case (Some m)
    then show ?thesis
      using assms Inr stream st ok
        signals_failure_intro [of sent "''OpenAI Streaming Error: ''" "''openai''" sid "modelId params" m]
      by (simp add: openai_generateStream_def Let_def)
  qed
qed

lemma openai_stream_success:
  assumes "snd (openai_generateStream S client params sid) = Inr r"
  shows "stream_invariant (fst (openai_generateStream S client params sid)) r"
proof (cases "client (openai_request_of S params True)")
  case (Inl m)
  then show ?thesis using assms by (simp add: openai_generateStream_def Let_def)
next
  case (Inr stream)
  obtain chunks failure where stream: "stream = (chunks, failure)" by (cases stream)
  obtain acc pt ct sent where
    st: "foldl (openai_stream_step sid (modelId params)) ([], 0, 0, []) chunks = (acc, pt, ct, sent)"
    by (cases "foldl (openai_stream_step sid (modelId params)) ([], 0, 0, []) chunks") auto
  have ok: "plain_deltas sent" "concat (content_delta_texts sent) = acc"
    using openai_fold_ok [of sid "modelId params" chunks] st by (simp_all add: stream_state_ok_def)
  show ?thesis
  proof (cases failure)
    case None
    then show ?thesis using assms Inr stream st ok
      by (auto simp: openai_generateStream_def Let_def intro!: stream_invariant_intro)
  next
    case (Some m)
    then show ?thesis using assms Inr stream st
      by (simp add: openai_generateStream_def Let_def)
  qed
qed

lemma anthropic_stream_failure:
  assumes "snd (anthropic_generateStream S client params sid) = Inl e"
  shows "signals_failure ''Anthropic Streaming Error: '' (fst (anthropic_generateStream S client params sid)) e"
proof (cases "client (anthropic_request_of S params (anthropic_stream_system S params) True)")
  case (Inl m)
  then show ?thesis
    using assms signals_failure_intro [of "[]" "''Anthropic Streaming Error: ''" "''anthropic''" sid "modelId params" m]
    by (simp add: anthropic_generateStream_def Let_def plain_deltas_def)
next
  case (Inr stream)
  obtain chunks failure where stream: "stream = (chunks, failure)" by (cases stream)
  obtain acc pt ct sent where
    st: "foldl (anthropic_stream_step sid (modelId params)) ([], 0, 0, []) chunks = (acc, pt, ct, sent)"
    by (cases "foldl (anthropic_stream_step sid (modelId params)) ([], 0, 0, []) chunks") auto
  have ok: "plain_deltas sent"
    using anthropic_fold_ok [of sid "modelId params" chunks] st by (simp add: stream_state_ok_def)
  show ?thesis
  proof (cases failure)
    case None
    then show ?thesis using assms Inr stream st
      by (simp add: anthropic_generateStream_def Let_def)
  next
    case (Some m)
    then show ?thesis
      using assms Inr stream st ok
        signals_failure_intro [of sent "''Anthropic Streaming Error: ''" "''anthropic''" sid "modelId params" m]
      by (simp add: anthropic_generateStream_def Let_def)
  qed
qed

lemma anthropic_stream_success:
  assumes "snd (anthropic_generateStream S client params sid) = Inr r"
  shows "stream_invariant (fst (anthropic_generateStream S client params sid)) r"
proof (cases "client (anthropic_request_of S params (anthropic_stream_system S params) True)")
  case (Inl m)
  then show ?thesis using assms by (simp add: anthropic_generateStream_def Let_def)
next
  case (Inr stream)
  obtain chunks failure where stream: "stream = (chunks, failure)" by (cases stream)
  obtain acc pt ct sent where
    st: "foldl (anthropic_stream_step sid (modelId params)) ([], 0, 0, []) chunks = (acc, pt, ct, sent)"
    by (cases "foldl (anthropic_stream_step sid (modelId params)) ([], 0, 0, []) chunks") auto
  have ok: "plain_deltas sent" "concat (content_delta_texts sent) = acc"
    using anthropic_fold_ok [of sid "modelId params" chunks] st by (simp_all add: stream_state_ok_def)
  show ?thesis
  proof (cases failure)
    case None
    then show ?thesis using assms Inr stream st ok
      by (auto simp: anthropic_generateStream_def Let_def intro!: stream_invariant_intro)
  next
    case (Some m)
    then show ?thesis using assms Inr stream st
      by (simp add: anthropic_generateStream_def Let_def)
  qed
qed


lemma base_stream_success:
  assumes "snd (base_generateStream generate params sid) = Inr r"
  shows "stream_invariant (fst (base_generateStream generate params sid)) r"
  using assms
  by (cases "generate params")
     (auto simp: base_generateStream_def stream_invariant_def content_delta_texts_def)

text \<open>The base class's fallback has no \<open>catch\<close>: when \<open>generate\<close> fails it sends no chunk.
  The three adapters override it.\<close>

lemma base_stream_failure:
  assumes "generate params = Inl e"
  shows "base_generateStream generate params sid = ([], Inl e)"
  using assms by (simp add: base_generateStream_def)

lemma google_send_step:
  "google_send sid r text (10 * k) sent =
     (if 10 * k < length text
      then google_send sid r text (10 * Suc k) (sent @ [google_chunk sid r text k])
      else sent)"
  by (subst google_send.simps)
     (simp add: chunkSize_def google_chunk_def substring_def add.commute)

lemma google_send_map:
  "google_send sid r text (10 * k) sent
     = sent @ map (google_chunk sid r text) [k..<(length text + 9) div 10]"
proof (induction "(length text + 9) div 10 - k" arbitrary: k sent)
  case 0
  then have "\<not> 10 * k < length text" by linarith
  with 0 show ?case by (subst google_send_step) simp
next
  case (Suc n)
  then have lt: "k < (length text + 9) div 10" by linarith
  then have "10 * k < length text" by linarith
  moreover have "n = (length text + 9) div 10 - Suc k" using Suc.hyps(2) by linarith
  ultimately show ?case
    using Suc.hyps(1) [of "Suc k" "sent @ [google_chunk sid r text k]"] lt
    by (subst google_send_step) (simp add: upt_conv_Cons)
qed

lemma google_stream_result:
  "google_generateStream S client params sid =
     (case fst (google_generate S client params) of
        Inr r \<Rightarrow> (map (google_chunk sid r (r_content r)) [0..<(length (r_content r) + 9) div 10], Inr r)
      | Inl m \<Rightarrow> ([error_chunk ''google'' sid (modelId params) m],
                  Inl (''Google AI Streaming Error: '' @ m)))"
  using google_send_map [of sid _ _ 0 "[]"]
  by (simp add: google_generateStream_def split: sum.splits)

lemma google_stream_failure:
  assumes "snd (google_generateStream S client params sid) = Inl e"
  shows "signals_failure ''Google AI Streaming Error: '' (fst (google_generateStream S client params sid)) e"
proof (cases "fst (google_generate S client params)")
  case (Inl m)
  then show ?thesis
    using assms signals_failure_intro [of "[]" "''Google AI Streaming Error: ''" "''google''" sid "modelId params" m]
    by (simp add: google_stream_result plain_deltas_def)
next
  case (Inr r)
  then show ?thesis using assms by (simp add: google_stream_result)
qed

lemma concat_chunks:
  "concat (map (\<lambda>i. take 10 (drop (10 * i) text)) [0..<n]) = take (10 * n) text"
proof (induction n)
  case 0
  then show ?case by simp
next
  case (Suc n)
  have "take (10 * n) text @ take 10 (drop (10 * n) text) = take (10 * n + 10) text"
    by (simp add: take_add)
  with Suc show ?case by (simp add: add.commute)
qed

lemma google_texts:
  "content_delta_texts (map (google_chunk sid r text) ns) = map (\<lambda>i. take 10 (drop (10 * i) text)) ns"
  by (induction ns) (simp_all add: content_delta_texts_def google_chunk_def)

lemma google_finals:
  "filter c_isFinal (map (google_chunk sid r text) [0..<n]) =
     map (google_chunk sid r text) (filter (\<lambda>i. length text \<le> 10 * i + 10) [0..<n])"
  by (simp add: filter_map comp_def google_chunk_def)

lemma google_stream_success:
  assumes "snd (google_generateStream S client params sid) = Inr r" and "r_content r \<noteq> []"
  shows "stream_invariant (fst (google_generateStream S client params sid)) r"
proof -
  let ?text = "r_content r"
  let ?n = "(length ?text + 9) div 10"
  from assms(1) have g: "fst (google_generate S client params) = Inr r"
    by (cases "fst (google_generate S client params)") (simp_all add: google_stream_result)
  then have chunks: "fst (google_generateStream S client params sid)
      = map (google_chunk sid r ?text) [0..<?n]"
    by (simp add: google_stream_result)
  from assms(2) have n: "0 < ?n" by (cases ?text) simp_all
  then obtain m where m: "?n = Suc m" by (cases ?n) simp_all
  have "filter (\<lambda>i. length ?text \<le> 10 * i + 10) [0..<?n] = [m]"
  proof -
    have "filter (\<lambda>i. length ?text \<le> 10 * i + 10) [0..<m] = []"
      using m by (auto simp: filter_empty_conv)
    moreover have "length ?text \<le> 10 * m + 10" using m by linarith
    ultimately show ?thesis using m by simp
  qed
  then have one: "length (filter c_isFinal (map (google_chunk sid r ?text) [0..<?n])) = 1"
    by (simp add: google_finals)
  have last: "c_isFinal (last (map (google_chunk sid r ?text) [0..<?n]))"
    using m by (simp add: google_chunk_def)
  have "concat (content_delta_texts (map (google_chunk sid r ?text) [0..<?n])) = ?text"
    by (simp add: google_texts concat_chunks)
  with one last n show ?thesis
    by (simp add: chunks stream_invariant_def)
qed

text \<open>
  Claim C7. Whenever \<open>generateStream\<close> of the OpenAI, Anthropic or Google adapter fails (its
  promise is rejected with error \<open>e\<close>), the chunks it has sent contain exactly one ERROR
  chunk; that chunk is the last one sent, it is the only chunk with \<open>isFinal = true\<close>, and
  it carries the message that \<open>e\<close> wraps with the adapter's streaming prefix. The call does
  fail whenever the backend call rejects, the backend's stream throws, or (Google) the
  underlying \<open>generate\<close> fails, with that failure's message.
\<close>

theorem stream_failure_signalled:
  "(snd (openai_generateStream S oclient params sid) = Inl e \<longrightarrow>
      signals_failure ''OpenAI Streaming Error: '' (fst (openai_generateStream S oclient params sid)) e)
   \<and> (snd (anthropic_generateStream S aclient params sid) = Inl e \<longrightarrow>
      signals_failure ''Anthropic Streaming Error: ''
        (fst (anthropic_generateStream S aclient params sid)) e)
   \<and> (snd (google_generateStream S gclient params sid) = Inl e \<longrightarrow>
      signals_failure ''Google AI Streaming Error: ''
        (fst (google_generateStream S gclient params sid)) e)
   \<and> (oclient (openai_request_of S params True) = Inl m \<or>
       oclient (openai_request_of S params True) = Inr (ochunks, Some m) \<longrightarrow>
      snd (openai_generateStream S oclient params sid) = Inl (''OpenAI Streaming Error: '' @ m))
   \<and> (aclient (anthropic_request_of S params (anthropic_stream_system S params) True) = Inl m \<or>
       aclient (anthropic_request_of S params (anthropic_stream_system S params) True)
         = Inr (achunks, Some m) \<longrightarrow>
      snd (anthropic_generateStream S aclient params sid) = Inl (''Anthropic Streaming Error: '' @ m))
   \<and> (fst (google_generate S gclient params) = Inl m \<longrightarrow>
      snd (google_generateStream S gclient params sid) = Inl (''Google AI Streaming Error: '' @ m))"
proof (intro conjI impI)
  assume "snd (openai_generateStream S oclient params sid) = Inl e"
  then show "signals_failure ''OpenAI Streaming Error: ''
      (fst (openai_generateStream S oclient params sid)) e"
    by (rule openai_stream_failure)
next
  assume "snd (anthropic_generateStream S aclient params sid) = Inl e"
  then show "signals_failure ''Anthropic Streaming Error: ''
      (fst (anthropic_generateStream S aclient params sid)) e"
    by (rule anthropic_stream_failure)
next
  assume "snd (google_generateStream S gclient params sid) = Inl e"
  then show "signals_failure ''Google AI Streaming Error: ''
      (fst (google_generateStream S gclient params sid)) e"
    by (rule google_stream_failure)
next
  assume "oclient (openai_request_of S params True) = Inl m \<or>
       oclient (openai_request_of S params True) = Inr (ochunks, Some m)"
  then show "snd (openai_generateStream S oclient params sid) = Inl (''OpenAI Streaming Error: '' @ m)"
    by (auto simp: openai_generateStream_def Let_def split: prod.splits)
next
  assume "aclient (anthropic_request_of S params (anthropic_stream_system S params) True) = Inl m \<or>
       aclient (anthropic_request_of S params (anthropic_stream_system S params) True)
         = Inr (achunks, Some m)"
  then show "snd (anthropic_generateStream S aclient params sid)
      = Inl (''Anthropic Streaming Error: '' @ m)"
    by (auto simp: anthropic_generateStream_def Let_def split: prod.splits)
next
  assume "fst (google_generate S gclient params) = Inl m"
  then show "snd (google_generateStream S gclient params sid) = Inl (''Google AI Streaming Error: '' @ m)"
    by (simp add: google_stream_result)
qed

lemma broken_openai_result:
  "openai_generateStream example_shared broken_openai (hello_request ''gpt-4'') ''s1'' =
     ([\<lparr>c_streamId = ''s1'', c_type = CONTENT_DELTA, c_payload = TextPayload ''Hel'',
        c_isFinal = False, c_modelId = ''gpt-4'',
        c_metadata = Some \<lparr>cm_provider = Some ''openai'', cm_usage = None,
                            cm_finishReason = None, cm_stopReason = None\<rparr>\<rparr>,
       error_chunk ''openai'' ''s1'' ''gpt-4'' ''connection reset''],
      Inl ''OpenAI Streaming Error: connection reset'')"
  by (simp add: openai_generateStream_def broken_openai_def openai_stream_step_def or_else_def
        hello_request_def Let_def)

theorem stream_failure_signalled_witness:
  "snd (openai_generateStream example_shared broken_openai (hello_request ''gpt-4'') ''s1'')
     = Inl ''OpenAI Streaming Error: connection reset''
   \<and> signals_failure ''OpenAI Streaming Error: ''
       [\<lparr>c_streamId = ''s1'', c_type = CONTENT_DELTA, c_payload = TextPayload ''Hel'',
         c_isFinal = False, c_modelId = ''gpt-4'',
         c_metadata = Some \<lparr>cm_provider = Some ''openai'', cm_usage = None,
                             cm_finishReason = None, cm_stopReason = None\<rparr>\<rparr>,
        error_chunk ''openai'' ''s1'' ''gpt-4'' ''connection reset'']
       ''OpenAI Streaming Error: connection reset''"
  using stream_failure_signalled [of example_shared broken_openai "hello_request ''gpt-4''" "''s1''"
      "''OpenAI Streaming Error: connection reset''"]
  by (simp add: broken_openai_result)

lemma silent_google_result:
  "fst (google_generate example_shared silent_google (hello_request ''gemini-pro'')) =
     Inr \<lparr>r_modelId = ''gemini-pro'', r_provider = ''google'', r_content = [],
           r_usage = \<lparr>promptTokens = 3, completionTokens = 0, totalTokens = 3,
                      estimatedCost = Num (3 / 800000)\<rparr>,
           r_metadata = \<lparr>finishReason = None, stopReason = None\<rparr>\<rparr>"
proof -
  have t: "google_try example_shared (silent_google 0) (hello_request ''gemini-pro'') =
     Inr \<lparr>r_modelId = ''gemini-pro'', r_provider = ''google'', r_content = [],
           r_usage = \<lparr>promptTokens = 3, completionTokens = 0, totalTokens = 3,
                      estimatedCost = Num (3 / 800000)\<rparr>,
           r_metadata = \<lparr>finishReason = None, stopReason = None\<rparr>\<rparr>"
    by (simp add: google_try_def silent_google_def hello_request_def or_else_def finish_or_null_def truthy_def
        google_countTokens_div google_calculateCost_def cost_of_def js_lookup_def google_costs_def
        example_shared_def Let_def)
  then show ?thesis
    using loop_stop_ok [of example_shared silent_google 0 "hello_request ''gemini-pro''" _ 0 1000 "[]"]
    by (simp add: google_generate_def)
qed

text \<open>
  Claim C1 against the code. When the Google backend answers with no candidate (or an empty
  one), \<open>generate\<close> succeeds with empty content and the simulated stream sends no chunk at
  all: the call succeeds, and no chunk with \<open>isFinal = true\<close> was sent, so the streaming
  invariant (exactly one final chunk, the last) does not hold. The other paths keep it:
  lemmas \<open>openai_stream_success\<close>, \<open>anthropic_stream_success\<close> and \<open>base_stream_success\<close>,
  and \<open>google_stream_success\<close> for a non-empty content.
\<close>

theorem empty_content_stream_no_final:
  "google_generateStream example_shared silent_google (hello_request ''gemini-pro'') ''s1'' =
     ([], Inr \<lparr>r_modelId = ''gemini-pro'', r_provider = ''google'', r_content = [],
               r_usage = \<lparr>promptTokens = 3, completionTokens = 0, totalTokens = 3,
                          estimatedCost = Num (3 / 800000)\<rparr>,
               r_metadata = \<lparr>finishReason = None, stopReason = None\<rparr>\<rparr>)
   \<and> \<not> stream_invariant []
        \<lparr>r_modelId = ''gemini-pro'', r_provider = ''google'', r_content = [],
         r_usage = \<lparr>promptTokens = 3, completionTokens = 0, totalTokens = 3,
                    estimatedCost = Num (3 / 800000)\<rparr>,
         r_metadata = \<lparr>finishReason = None, stopReason = None\<rparr>\<rparr>"
  by (simp add: google_stream_result silent_google_result stream_invariant_def)

text \<open>
  Claim C10. In a successful simulated stream of the Google adapter every chunk is a
  CONTENT_DELTA chunk, there are \<open>\<lceil>length / 10\<rceil>\<close> of them, and every chunk but the last
  carries exactly 10 characters, chunk \<open>i\<close> the characters from \<open>10 i\<close> on. When the
  underlying \<open>generate\<close> succeeds with empty content, \<open>generateStream\<close> succeeds with the
  same response and sends no chunk, hence no chunk with \<open>isFinal = true\<close>.
\<close>

theorem google_simulated_chunks:
  "(snd (google_generateStream S client params sid) = Inr r \<longrightarrow>
      (\<forall>i. Suc i < length (fst (google_generateStream S client params sid)) \<longrightarrow>
         c_type (fst (google_generateStream S client params sid) ! i) = CONTENT_DELTA \<and>
         c_payload (fst (google_generateStream S client params sid) ! i)
           = TextPayload (take 10 (drop (10 * i) (r_content r))) \<and>
         length (take 10 (drop (10 * i) (r_content r))) = 10)
      \<and> (\<forall>c \<in> set (fst (google_generateStream S client params sid)). c_type c = CONTENT_DELTA)
      \<and> length (fst (google_generateStream S client params sid)) = (length (r_content r) + 9) div 10)
   \<and> (fst (google_generate S client params) = Inr r \<and> r_content r = [] \<longrightarrow>
        google_generateStream S client params sid = ([], Inr r)
        \<and> filter c_isFinal (fst (google_generateStream S client params sid)) = [])"
proof (intro conjI impI allI)
  assume ok: "snd (google_generateStream S client params sid) = Inr r"
  then have g: "fst (google_generate S client params) = Inr r"
    by (cases "fst (google_generate S client params)") (simp_all add: google_stream_result)
  then have chunks: "fst (google_generateStream S client params sid)
      = map (google_chunk sid r (r_content r)) [0..<(length (r_content r) + 9) div 10]"
    by (simp add: google_stream_result)
  show "length (fst (google_generateStream S client params sid)) = (length (r_content r) + 9) div 10"
    by (simp add: chunks)
  show "\<forall>c \<in> set (fst (google_generateStream S client params sid)). c_type c = CONTENT_DELTA"
    by (auto simp: chunks google_chunk_def)
  fix i assume i: "Suc i < length (fst (google_generateStream S client params sid))"
  then have lt: "Suc i < (length (r_content r) + 9) div 10" by (simp add: chunks)
  then show "c_type (fst (google_generateStream S client params sid) ! i) = CONTENT_DELTA"
    by (simp add: chunks google_chunk_def)
  from lt show "c_payload (fst (google_generateStream S client params sid) ! i)
           = TextPayload (take 10 (drop (10 * i) (r_content r)))"
    by (simp add: chunks google_chunk_def)
  from lt have "10 * i + 10 < length (r_content r)" by linarith
  then show "length (take 10 (drop (10 * i) (r_content r))) = 10" by simp
next
  assume "fst (google_generate S client params) = Inr r \<and> r_content r = []"
  then show "google_generateStream S client params sid = ([], Inr r)"
    by (simp add: google_stream_result)
next
  assume "fst (google_generate S client params) = Inr r \<and> r_content r = []"
  then show "filter c_isFinal (fst (google_generateStream S client params sid)) = []"
    by (simp add: google_stream_result)
qed


lemma long_google_result:
  "fst (google_generate example_shared long_google (hello_request ''gemini-pro'')) =
     Inr \<lparr>r_modelId = ''gemini-pro'', r_provider = ''google'', r_content = ''hello from gemini pro'',
           r_usage = \<lparr>promptTokens = 3, completionTokens = 6, totalTokens = 9,
                      estimatedCost = Num (21 / 800000)\<rparr>,
           r_metadata = \<lparr>finishReason = Some ''STOP'', stopReason = None\<rparr>\<rparr>"
proof -
  have t: "google_try example_shared (long_google 0) (hello_request ''gemini-pro'') =
     Inr \<lparr>r_modelId = ''gemini-pro'', r_provider = ''google'', r_content = ''hello from gemini pro'',
           r_usage = \<lparr>promptTokens = 3, completionTokens = 6, totalTokens = 9,
                      estimatedCost = Num (21 / 800000)\<rparr>,
           r_metadata = \<lparr>finishReason = Some ''STOP'', stopReason = None\<rparr>\<rparr>"
    by (simp add: google_try_def long_google_def hello_request_def or_else_def finish_or_null_def truthy_def
        google_countTokens_div google_calculateCost_def cost_of_def js_lookup_def google_costs_def
        example_shared_def Let_def)
  then show ?thesis
    using loop_stop_ok [of example_shared long_google 0 "hello_request ''gemini-pro''" _ 0 1000 "[]"]
    by (simp add: google_generate_def)
qed

theorem google_simulated_chunks_witness:
  "length (fst (google_generateStream example_shared long_google (hello_request ''gemini-pro'') ''s1'')) = 3
   \<and> c_payload (fst (google_generateStream example_shared long_google
                       (hello_request ''gemini-pro'') ''s1'') ! 0) = TextPayload ''hello from''
   \<and> c_payload (fst (google_generateStream example_shared long_google
                       (hello_request ''gemini-pro'') ''s1'') ! 1) = TextPayload '' gemini pr''
   \<and> google_generateStream example_shared silent_google (hello_request ''gemini-pro'') ''s1'' =
     ([], Inr \<lparr>r_modelId = ''gemini-pro'', r_provider = ''google'', r_content = [],
               r_usage = \<lparr>promptTokens = 3, completionTokens = 0, totalTokens = 3,
                          estimatedCost = Num (3 / 800000)\<rparr>,
               r_metadata = \<lparr>finishReason = None, stopReason = None\<rparr>\<rparr>)"
proof -
  let ?G = "google_generateStream example_shared long_google (hello_request ''gemini-pro'') ''s1''"
  let ?r = "\<lparr>r_modelId = ''gemini-pro'', r_provider = ''google'', r_content = ''hello from gemini pro'',
           r_usage = \<lparr>promptTokens = 3, completionTokens = 6, totalTokens = 9,
                      estimatedCost = Num (21 / 800000)\<rparr>,
           r_metadata = \<lparr>finishReason = Some ''STOP'', stopReason = None\<rparr>\<rparr>"
  have ok: "snd ?G = Inr ?r"
    by (simp add: google_generateStream_def long_google_result)
  note inst = google_simulated_chunks [of example_shared long_google "hello_request ''gemini-pro''"
      "''s1''" ?r]
  from inst ok have len: "length (fst ?G) = 3" by simp
  from inst ok len have "c_payload (fst ?G ! 0) = TextPayload ''hello from''"
    by simp
  moreover from inst ok len have "c_payload (fst ?G ! 1) = TextPayload '' gemini pr''"
    by simp
  moreover have "google_generateStream example_shared silent_google (hello_request ''gemini-pro'') ''s1'' =
     ([], Inr \<lparr>r_modelId = ''gemini-pro'', r_provider = ''google'', r_content = [],
               r_usage = \<lparr>promptTokens = 3, completionTokens = 0, totalTokens = 3,
                          estimatedCost = Num (3 / 800000)\<rparr>,
               r_metadata = \<lparr>finishReason = None, stopReason = None\<rparr>\<rparr>)"
    using google_simulated_chunks [of example_shared silent_google "hello_request ''gemini-pro''" "''s1''"
        "\<lparr>r_modelId = ''gemini-pro'', r_provider = ''google'', r_content = [],
               r_usage = \<lparr>promptTokens = 3, completionTokens = 0, totalTokens = 3,
                          estimatedCost = Num (3 / 800000)\<rparr>,
               r_metadata = \<lparr>finishReason = None, stopReason = None\<rparr>\<rparr>"]
    by (simp add: silent_google_result)
  ultimately show ?thesis using len by simp
qed

end
